theory Spec2Isabelle
  imports Complex_Main
begin

section \<open>Python values used by app.py\<close>

text \<open>
  A Python \<open>str\<close> is a sequence of Unicode code points; it is modelled as the list of
  those code points. \<open>py\<close> turns an ASCII literal of the source into such a list.
\<close>

type_synonym pystr = "nat list"

definition py :: "string \<Rightarrow> pystr" where
  "py cs = map of_char cs"

text \<open>
  \<open>str.isspace\<close> for one code point: the characters CPython treats as whitespace
  (\<open>_PyUnicode_IsWhitespace\<close>), which are the ones \<open>str.strip()\<close> removes.
\<close>

definition isspace :: "nat \<Rightarrow> bool" where
  "isspace c =
     ((9 \<le> c \<and> c \<le> 13) \<or> (28 \<le> c \<and> c \<le> 32) \<or> c = 133 \<or> c = 160 \<or> c = 5760 \<or>
      (8192 \<le> c \<and> c \<le> 8202) \<or> c = 8232 \<or> c = 8233 \<or> c = 8239 \<or> c = 8287 \<or>
      c = 12288)"

definition strip :: "pystr \<Rightarrow> pystr" where
  "strip s = rev (dropWhile isspace (rev (dropWhile isspace s)))"

text \<open>\<open>v or d\<close> for \<open>v\<close> a string or \<open>None\<close>: the default replaces \<open>None\<close> and the empty string.\<close>

definition or_str :: "pystr option \<Rightarrow> pystr \<Rightarrow> pystr" where
  "or_str v d = (case v of None \<Rightarrow> d | Some s \<Rightarrow> if s = [] then d else s)"

text \<open>\<open>s or None\<close> for a string \<open>s\<close>.\<close>

definition or_none :: "pystr \<Rightarrow> pystr option" where
  "or_none s = (if s = [] then None else Some s)"

text \<open>
  \<open>request.form\<close>: \<open>form_get f k\<close> is \<open>request.form.get(k)\<close> and \<open>form_get_or f k d\<close> is
  \<open>request.form.get(k, d)\<close>.
\<close>

type_synonym form = "pystr \<Rightarrow> pystr option"

definition form_get :: "form \<Rightarrow> string \<Rightarrow> pystr option" where
  "form_get f k = f (py k)"

definition form_get_or :: "form \<Rightarrow> string \<Rightarrow> pystr \<Rightarrow> pystr" where
  "form_get_or f k d = (case f (py k) of None \<Rightarrow> d | Some s \<Rightarrow> s)"

text \<open>
  A Python \<open>float\<close>, as far as the program stores it: a finite value, an infinity or NaN.
\<close>

datatype pyfloat = Finite real | PosInf | NegInf | NaN

text \<open>
  Functions of the Python standard library and of werkzeug that app.py calls; they are not
  part of the repository and are parameters of the model:
  \<^item> \<open>strptime_ok s\<close>: \<open>datetime.strptime(s, "%Y-%m-%d")\<close> returns (no \<open>ValueError\<close>);
  \<^item> \<open>float_of s\<close>: \<open>float(s)\<close>, \<open>None\<close> for \<open>ValueError\<close>;
  \<^item> \<open>lower s\<close>: \<open>s.lower()\<close>;
  \<^item> \<open>generate_password_hash p salt\<close>: the hash werkzeug computes for \<open>p\<close> with the random
    salt it drew;
  \<^item> \<open>check_password_hash h p\<close>.
\<close>

record pylib =
  strptime_ok :: "pystr \<Rightarrow> bool"
  float_of :: "pystr \<Rightarrow> pyfloat option"
  lower :: "pystr \<Rightarrow> pystr"
  generate_password_hash :: "pystr \<Rightarrow> pystr \<Rightarrow> pystr"
  check_password_hash :: "pystr \<Rightarrow> pystr \<Rightarrow> bool"

text \<open>
  What one request reads from outside the database: the clock (\<open>datetime.now().isoformat()\<close>,
  read at most twice by a handler), the value \<open>secrets.token_urlsafe(24)\<close> returned, and the
  salt of \<open>generate_password_hash\<close>.
\<close>

record env =
  now :: pystr
  now2 :: pystr
  token :: pystr
  salt :: pystr

datatype error = IntegrityError | RuntimeError | TypeError

definition parse_date_yyyy_mm_dd :: "pylib \<Rightarrow> pystr \<Rightarrow> pystr option" where
  "parse_date_yyyy_mm_dd L s0 =
     (let s = strip s0 in
      if s = [] then None
      else if strptime_ok L s then Some s
      else None)"

section \<open>The database\<close>

text \<open>
  One record per table of \<open>init_db\<close>, with the columns \<open>ensure_column\<close> adds. A column
  declared \<open>NOT NULL\<close> has its value; any other column is an option, \<open>None\<close> for \<open>NULL\<close>.
  A table is the list of its rows in insertion order.
\<close>

record company =
  c_id :: nat
  c_name :: pystr
  c_created_at :: pystr

record user =
  u_id :: nat
  u_company_id :: "nat option"
  username :: pystr
  password_hash :: pystr
  role :: pystr
  u_created_at :: pystr

record lead =
  l_id :: nat
  l_name :: pystr
  phone :: pystr
  l_status :: pystr
  l_created_at :: pystr
  service_type :: "pystr option"
  source :: "pystr option"
  address :: "pystr option"
  l_notes :: "pystr option"
  l_company_id :: "nat option"

record job =
  j_id :: nat
  lead_id :: "nat option"
  customer_name :: pystr
  j_status :: pystr
  j_created_at :: pystr
  scheduled_date :: "pystr option"
  technician :: "pystr option"
  j_notes :: "pystr option"
  j_company_id :: "nat option"

record invoice =
  i_id :: nat
  i_job_id :: nat
  amount :: pyfloat
  i_status :: pystr
  i_created_at :: pystr
  paid_at :: "pystr option"
  due_date :: "pystr option"
  public_token :: "pystr option"
  customer_email :: "pystr option"
  i_company_id :: "nat option"

record task =
  t_id :: nat
  t_company_id :: nat
  t_job_id :: nat
  title :: pystr
  t_status :: pystr
  t_due_date :: "pystr option"
  assigned_to :: "pystr option"
  t_created_at :: pystr

record db =
  companies :: "company list"
  users :: "user list"
  leads :: "lead list"
  jobs :: "job list"
  invoices :: "invoice list"
  tasks :: "task list"

definition empty_db :: db where
  "empty_db = \<lparr>companies = [], users = [], leads = [], jobs = [], invoices = [], tasks = []\<rparr>"

text \<open>
  \<open>INTEGER PRIMARY KEY AUTOINCREMENT\<close>: a new row gets one more than the largest id of the
  table (1 in an empty table). No statement of the program deletes a row, so the largest id
  ever used is the largest id present.
\<close>

definition next_id :: "nat list \<Rightarrow> nat" where
  "next_id ids = Suc (foldr max ids 0)"

text \<open>
  \<open>init_db\<close> runs \<open>CREATE TABLE IF NOT EXISTS\<close> and \<open>ALTER TABLE ... ADD COLUMN\<close> only: it
  changes no row, and a column it adds is \<open>NULL\<close> in the rows already there.
\<close>

definition init_db :: "db \<Rightarrow> db" where
  "init_db d = d"

text \<open>\<open>INSERT INTO companies (name, created_at)\<close>, with \<open>last_insert_rowid()\<close>.\<close>

definition insert_company :: "pystr \<Rightarrow> pystr \<Rightarrow> db \<Rightarrow> nat \<times> db" where
  "insert_company name created d =
     (let i = next_id (map c_id (companies d)) in
      (i, d\<lparr>companies := companies d @ [\<lparr>c_id = i, c_name = name, c_created_at = created\<rparr>]\<rparr>))"

text \<open>
  \<open>INSERT INTO users (company_id, username, password_hash, role, created_at)\<close>. The column
  \<open>username\<close> is \<open>UNIQUE\<close>: a username already stored raises \<open>sqlite3.IntegrityError\<close>.
\<close>

definition insert_user :: "nat \<Rightarrow> pystr \<Rightarrow> pystr \<Rightarrow> pystr \<Rightarrow> pystr \<Rightarrow> db \<Rightarrow> error + db" where
  "insert_user cid name pwhash r created d =
     (if \<exists>u \<in> set (users d). username u = name then Inl IntegrityError
      else Inr (d\<lparr>users := users d @
        [\<lparr>u_id = next_id (map u_id (users d)), u_company_id = Some cid, username = name,
          password_hash = pwhash, role = r, u_created_at = created\<rparr>]\<rparr>))"

section \<open>Sessions, requests and responses\<close>

text \<open>
  The Flask session holds \<open>user_id\<close> and \<open>company_id\<close>; \<open>None\<close> is a key that is absent or
  holds \<open>None\<close>. \<open>truthy\<close> is Python's truth value of such an entry.
\<close>

record session =
  user_id :: "nat option"
  company_id :: "nat option"

definition truthy :: "nat option \<Rightarrow> bool" where
  "truthy v = (case v of None \<Rightarrow> False | Some n \<Rightarrow> n \<noteq> 0)"

definition session_clear :: session where
  "session_clear = \<lparr>user_id = None, company_id = None\<rparr>"

datatype http_method = GET | POST

datatype endpoint = EP_login | EP_setup | EP_dashboard

text \<open>
  The template a handler renders, with the part of its context this development uses: the
  error message of the three forms, and the row \<open>public_invoice\<close> selected (the invoice, the
  company's name, the job's customer name). The lists the dashboard and the owner page show
  are not modelled; those two handlers write nothing.
\<close>

datatype page =
    SetupPage "pystr option"
  | SignupPage "pystr option"
  | LoginPage "pystr option"
  | OwnerCompaniesPage
  | DashboardPage
  | PublicInvoicePage invoice pystr pystr

text \<open>
  A response: a redirect, a rendered page, \<open>abort(code)\<close>, or an exception no handler
  catches (Flask answers 500).
\<close>

datatype response = Redirect endpoint | Render page | Abort nat | Raise error

definition any_users_exist :: "db \<Rightarrow> bool" where
  "any_users_exist d = (length (users d) > 0)"

definition current_company_id :: "session \<Rightarrow> response + nat" where
  "current_company_id sess =
     (case company_id sess of
        None \<Rightarrow> Inl (Abort 401)
      | Some cid \<Rightarrow> if cid = 0 then Inl (Abort 401) else Inr cid)"

definition login_required :: "session \<Rightarrow> db \<Rightarrow> response \<times> db \<Rightarrow> response \<times> db" where
  "login_required sess d view =
     (if \<not> truthy (user_id sess) \<or> \<not> truthy (company_id sess) then (Redirect EP_login, d)
      else view)"

definition super_admin_required :: "session \<Rightarrow> db \<Rightarrow> response \<Rightarrow> response" where
  "super_admin_required sess d view =
     (if \<not> truthy (user_id sess) then Redirect EP_login
      else case find (\<lambda>u. Some (u_id u) = user_id sess) (users d) of
             None \<Rightarrow> Abort 403
           | Some u \<Rightarrow> if role u \<noteq> py ''super_admin'' then Abort 403 else view)"

section \<open>Startup\<close>

text \<open>
  \<open>ensure_super_admin\<close>, given \<open>os.environ.get("SUPER_ADMIN_PASSWORD")\<close>. The result is the
  exception raised, if any, and the database as committed: the insert of the owner company
  is committed before the check for a super-admin, so it stays when the function raises.
\<close>

definition ensure_super_admin :: "pylib \<Rightarrow> pystr option \<Rightarrow> env \<Rightarrow> db \<Rightarrow> error option \<times> db" where
  "ensure_super_admin L password E d =
     (let (owner_company_id, d1) =
            (case find (\<lambda>c. c_name c = py ''APtech Solutions'') (companies d) of
               Some row \<Rightarrow> (c_id row, d)
             | None \<Rightarrow> insert_company (py ''APtech Solutions'') (now E) d)
      in if \<exists>u \<in> set (users d1). role u = py ''super_admin'' then (None, d1)
         else case password of
                None \<Rightarrow> (Some RuntimeError, d1)
              | Some pw \<Rightarrow>
                  if pw = [] then (Some RuntimeError, d1)
                  else case insert_user owner_company_id (py ''aptech_owner'')
                              (generate_password_hash L pw (salt E)) (py ''super_admin'') (now2 E) d1 of
                         Inl e \<Rightarrow> (Some e, d1)
                       | Inr d2 \<Rightarrow> (None, d2))"

section \<open>Account routes\<close>

text \<open>
  \<open>/setup\<close>. All statements run in one transaction, committed once at the end: when the
  insert of the user raises, the \<open>with\<close> block rolls the company back.
\<close>

definition setup_route :: "pylib \<Rightarrow> env \<Rightarrow> http_method \<Rightarrow> form \<Rightarrow> db \<Rightarrow> response \<times> db" where
  "setup_route L E m f d =
     (if any_users_exist d then (Redirect EP_login, d)
      else if m = POST then
        (let company_name = strip (or_str (form_get f ''company_name'') []);
             uname = strip (or_str (form_get f ''username'') []);
             password = strip (or_str (form_get f ''password'') [])
         in if company_name = [] \<or> uname = [] \<or> password = []
            then (Render (SetupPage (Some (py ''All fields are required.''))), d)
            else
              (let (cid, d1) = insert_company company_name (now E) d
               in case insert_user cid uname (generate_password_hash L password (salt E))
                         (py ''admin'') (now2 E) d1 of
                    Inl e \<Rightarrow> (Raise e, d)
                  | Inr d2 \<Rightarrow>
                      (Redirect EP_login,
                       d2\<lparr>leads := map (\<lambda>l. if l_company_id l = None
                                              then l\<lparr>l_company_id := Some cid\<rparr> else l) (leads d2),
                          jobs := map (\<lambda>j. if j_company_id j = None
                                             then j\<lparr>j_company_id := Some cid\<rparr> else j) (jobs d2),
                          invoices := map (\<lambda>i. if i_company_id i = None
                                                 then i\<lparr>i_company_id := Some cid\<rparr> else i)
                                          (invoices d2)\<rparr>)))
      else (Render (SetupPage None), d))"

text \<open>
  \<open>/signup\<close>, POST. The handler commits twice, so it is two transactions.
  \<open>signup_company\<close> is the handler up to the first \<open>conn.commit()\<close>: the checks and the
  insert of the company. Its result is the page of an early return, or the new company's
  id (\<open>last_insert_rowid()\<close>), with the database as committed.
\<close>

definition signup_company :: "pylib \<Rightarrow> env \<Rightarrow> form \<Rightarrow> db \<Rightarrow> (response + nat) \<times> db" where
  "signup_company L E f d =
     (let company_name = strip (or_str (form_get f ''company_name'') []);
          uname = strip (or_str (form_get f ''username'') []);
          password = strip (or_str (form_get f ''password'') [])
      in if company_name = [] \<or> uname = [] \<or> password = []
         then (Inl (Render (SignupPage (Some (py ''All fields are required.'')))), d)
         else if lower L uname = py ''aptech_owner''
         then (Inl (Render (SignupPage
                 (Some (py ''That username is reserved. Please choose another.'')))), d)
         else if \<exists>u \<in> set (users d). username u = uname
         then (Inl (Render (SignupPage
                 (Some (py ''That username is already taken. Try another.'')))), d)
         else (let (cid, d1) = insert_company company_name (now E) d in (Inr cid, d1)))"

text \<open>
  \<open>signup_user\<close> is the rest of the handler: the insert of the admin user for the company
  just created, the second commit, and the login. It runs on the database as it is then.
\<close>

definition signup_user :: "pylib \<Rightarrow> env \<Rightarrow> form \<Rightarrow> nat \<Rightarrow> db \<Rightarrow> response \<times> session option \<times> db" where
  "signup_user L E f cid d =
     (let uname = strip (or_str (form_get f ''username'') []);
          password = strip (or_str (form_get f ''password'') [])
      in case insert_user cid uname (generate_password_hash L password (salt E))
                (py ''admin'') (now2 E) d of
           Inl e \<Rightarrow> (Raise e, None, d)
         | Inr d2 \<Rightarrow>
             (case find (\<lambda>u. username u = uname) (users d2) of
                None \<Rightarrow> (Raise TypeError, None, d2)
              | Some u \<Rightarrow>
                  (Redirect EP_dashboard,
                   Some \<lparr>user_id = Some (u_id u), company_id = u_company_id u\<rparr>, d2)))"

text \<open>
  The whole handler, when nothing else writes between its two transactions. The second
  component is the session the handler stored, \<open>None\<close> when it left the session as it was.
\<close>

definition signup :: "pylib \<Rightarrow> env \<Rightarrow> http_method \<Rightarrow> form \<Rightarrow> db \<Rightarrow> response \<times> session option \<times> db" where
  "signup L E m f d =
     (if m = POST then
        (case signup_company L E f d of
           (Inl r, d1) \<Rightarrow> (r, None, d1)
         | (Inr cid, d1) \<Rightarrow> signup_user L E f cid d1)
      else (Render (SignupPage None), None, d))"

definition login :: "pylib \<Rightarrow> http_method \<Rightarrow> form \<Rightarrow> db \<Rightarrow> response \<times> session option" where
  "login L m f d =
     (if \<not> any_users_exist d then (Redirect EP_setup, None)
      else if m = POST then
        (let uname = strip (or_str (form_get f ''username'') []);
             password = strip (or_str (form_get f ''password'') [])
         in case find (\<lambda>u. username u = uname) (users d) of
              None \<Rightarrow> (Render (LoginPage (Some (py ''Wrong username or password.''))), None)
            | Some u \<Rightarrow>
                if check_password_hash L (password_hash u) password
                then (Redirect EP_dashboard,
                      Some \<lparr>user_id = Some (u_id u), company_id = u_company_id u\<rparr>)
                else (Render (LoginPage (Some (py ''Wrong username or password.''))), None))
      else (Render (LoginPage None), None))"

definition logout :: "response \<times> session option" where
  "logout = (Redirect EP_login, Some session_clear)"

definition owner_companies :: "session \<Rightarrow> db \<Rightarrow> response" where
  "owner_companies sess d = super_admin_required sess d (Render OwnerCompaniesPage)"

definition dashboard :: "session \<Rightarrow> db \<Rightarrow> response \<times> db" where
  "dashboard sess d =
     login_required sess d
       (case current_company_id sess of
          Inl r \<Rightarrow> (r, d)
        | Inr cid \<Rightarrow> (Render DashboardPage, d))"

section \<open>Tenant-scoped routes\<close>

definition add_lead :: "env \<Rightarrow> session \<Rightarrow> form \<Rightarrow> db \<Rightarrow> response \<times> db" where
  "add_lead E sess f d =
     login_required sess d
       (case current_company_id sess of
          Inl r \<Rightarrow> (r, d)
        | Inr cid \<Rightarrow>
            (let name = strip (form_get_or f ''name'' []);
                 ph = strip (form_get_or f ''phone'' [])
             in if name = [] \<or> ph = [] then (Abort 400, d)
                else (Redirect EP_dashboard,
                      d\<lparr>leads := leads d @
                        [\<lparr>l_id = next_id (map l_id (leads d)), l_name = name, phone = ph,
                          l_status = py ''New'', l_created_at = now E,
                          service_type = or_none (strip (form_get_or f ''service_type'' [])),
                          source = or_none (strip (form_get_or f ''source'' [])),
                          address = or_none (strip (form_get_or f ''address'' [])),
                          l_notes = or_none (strip (form_get_or f ''notes'' [])),
                          l_company_id = Some cid\<rparr>]\<rparr>)))"

definition lead_statuses :: "pystr list" where
  "lead_statuses = [py ''New'', py ''Contacted'', py ''Scheduled'', py ''Won'', py ''Lost'']"

definition update_lead_status :: "session \<Rightarrow> nat \<Rightarrow> form \<Rightarrow> db \<Rightarrow> response \<times> db" where
  "update_lead_status sess lid f d =
     login_required sess d
       (case current_company_id sess of
          Inl r \<Rightarrow> (r, d)
        | Inr cid \<Rightarrow>
            (let status = strip (or_str (form_get f ''status'') (py ''New''))
             in if status \<notin> set lead_statuses then (Abort 400, d)
                else case find (\<lambda>l. l_id l = lid \<and> l_company_id l = Some cid) (leads d) of
                       None \<Rightarrow> (Abort 404, d)
                     | Some ld \<Rightarrow>
                         (Redirect EP_dashboard,
                          d\<lparr>leads := map (\<lambda>l. if l_id l = lid \<and> l_company_id l = Some cid
                                                 then l\<lparr>l_status := status\<rparr> else l) (leads d)\<rparr>)))"

definition convert_lead :: "pylib \<Rightarrow> env \<Rightarrow> session \<Rightarrow> nat \<Rightarrow> form \<Rightarrow> db \<Rightarrow> response \<times> db" where
  "convert_lead L E sess lid f d =
     login_required sess d
       (case current_company_id sess of
          Inl r \<Rightarrow> (r, d)
        | Inr cid \<Rightarrow>
            (let sched = parse_date_yyyy_mm_dd L (form_get_or f ''scheduled_date'' []);
                 tech = or_none (strip (form_get_or f ''technician'' []))
             in case find (\<lambda>l. l_id l = lid \<and> l_company_id l = Some cid) (leads d) of
                  None \<Rightarrow> (Abort 404, d)
                | Some ld \<Rightarrow>
                    (Redirect EP_dashboard,
                     d\<lparr>jobs := jobs d @
                         [\<lparr>j_id = next_id (map j_id (jobs d)), lead_id = Some lid,
                           customer_name = l_name ld, j_status = py ''Scheduled'',
                           j_created_at = now E, scheduled_date = sched, technician = tech,
                           j_notes = None, j_company_id = Some cid\<rparr>],
                       leads := map (\<lambda>l. if l_id l = lid \<and> l_company_id l = Some cid
                                              then l\<lparr>l_status := py ''Scheduled''\<rparr> else l)
                                    (leads d)\<rparr>)))"

definition job_statuses :: "pystr list" where
  "job_statuses = [py ''Scheduled'', py ''In Progress'', py ''Completed'', py ''Canceled'']"

definition update_job_status :: "session \<Rightarrow> nat \<Rightarrow> form \<Rightarrow> db \<Rightarrow> response \<times> db" where
  "update_job_status sess jid f d =
     login_required sess d
       (case current_company_id sess of
          Inl r \<Rightarrow> (r, d)
        | Inr cid \<Rightarrow>
            (let status = strip (or_str (form_get f ''status'') (py ''Scheduled''))
             in if status \<notin> set job_statuses then (Abort 400, d)
                else case find (\<lambda>j. j_id j = jid \<and> j_company_id j = Some cid) (jobs d) of
                       None \<Rightarrow> (Abort 404, d)
                     | Some jb \<Rightarrow>
                         (Redirect EP_dashboard,
                          d\<lparr>jobs := map (\<lambda>j. if j_id j = jid \<and> j_company_id j = Some cid
                                                then j\<lparr>j_status := status\<rparr> else j) (jobs d)\<rparr>)))"

text \<open>
  \<open>create_invoice\<close>. The column \<open>amount\<close> is \<open>REAL NOT NULL\<close> and SQLite binds a NaN as
  \<open>NULL\<close>, so the insert of a NaN amount raises \<open>sqlite3.IntegrityError\<close> and the \<open>with\<close>
  block rolls back.
\<close>

definition create_invoice :: "pylib \<Rightarrow> env \<Rightarrow> session \<Rightarrow> nat \<Rightarrow> form \<Rightarrow> db \<Rightarrow> response \<times> db" where
  "create_invoice L E sess jid f d =
     login_required sess d
       (case current_company_id sess of
          Inl r \<Rightarrow> (r, d)
        | Inr cid \<Rightarrow>
            (let amount_raw = strip (or_str (form_get f ''amount'') []);
                 due = parse_date_yyyy_mm_dd L (form_get_or f ''due_date'' [])
             in case float_of L amount_raw of
                  None \<Rightarrow> (Abort 400, d)
                | Some amt \<Rightarrow>
                    (case find (\<lambda>j. j_id j = jid \<and> j_company_id j = Some cid) (jobs d) of
                       None \<Rightarrow> (Abort 404, d)
                     | Some jb \<Rightarrow>
                         if amt = NaN then (Raise IntegrityError, d)
                         else (Redirect EP_dashboard,
                               d\<lparr>invoices := invoices d @
                                 [\<lparr>i_id = next_id (map i_id (invoices d)), i_job_id = jid,
                                   amount = amt, i_status = py ''Unpaid'', i_created_at = now E,
                                   paid_at = None, due_date = due, public_token = Some (token E),
                                   customer_email = None, i_company_id = Some cid\<rparr>]\<rparr>))))"

text \<open>
  \<open>public_invoice\<close>: the rows of the two inner joins whose invoice carries the token, and
  \<open>LIMIT 1\<close>: the first of them. The statement has no \<open>ORDER BY\<close>; the rows are taken in the
  order of the tables.
\<close>

definition public_invoice :: "pystr \<Rightarrow> db \<Rightarrow> response" where
  "public_invoice tok d =
     (case [(i, c_name c, customer_name j).
              i \<leftarrow> invoices d, c \<leftarrow> companies d, j \<leftarrow> jobs d,
              Some (c_id c) = i_company_id i, j_id j = i_job_id i, public_token i = Some tok] of
        [] \<Rightarrow> Abort 404
      | (i, cn, cust) # rest \<Rightarrow> Render (PublicInvoicePage i cn cust))"

definition mark_paid :: "env \<Rightarrow> session \<Rightarrow> nat \<Rightarrow> db \<Rightarrow> response \<times> db" where
  "mark_paid E sess iid d =
     login_required sess d
       (case current_company_id sess of
          Inl r \<Rightarrow> (r, d)
        | Inr cid \<Rightarrow>
            (case find (\<lambda>i. i_id i = iid \<and> i_company_id i = Some cid) (invoices d) of
               None \<Rightarrow> (Abort 404, d)
             | Some iv \<Rightarrow>
                 (Redirect EP_dashboard,
                  d\<lparr>invoices := map (\<lambda>i. if i_id i = iid \<and> i_company_id i = Some cid
                                            then i\<lparr>i_status := py ''Paid'', paid_at := Some (now E)\<rparr>
                                            else i) (invoices d)\<rparr>)))"

definition add_task :: "pylib \<Rightarrow> env \<Rightarrow> session \<Rightarrow> nat \<Rightarrow> form \<Rightarrow> db \<Rightarrow> response \<times> db" where
  "add_task L E sess jid f d =
     login_required sess d
       (case current_company_id sess of
          Inl r \<Rightarrow> (r, d)
        | Inr cid \<Rightarrow>
            (let ttl = strip (or_str (form_get f ''title'') []);
                 due = parse_date_yyyy_mm_dd L (form_get_or f ''due_date'' []);
                 who = or_none (strip (or_str (form_get f ''assigned_to'') []))
             in if ttl = [] then (Abort 400, d)
                else case find (\<lambda>j. j_id j = jid \<and> j_company_id j = Some cid) (jobs d) of
                       None \<Rightarrow> (Abort 404, d)
                     | Some jb \<Rightarrow>
                         (Redirect EP_dashboard,
                          d\<lparr>tasks := tasks d @
                            [\<lparr>t_id = next_id (map t_id (tasks d)), t_company_id = cid,
                              t_job_id = jid, title = ttl, t_status = py ''todo'',
                              t_due_date = due, assigned_to = who, t_created_at = now E\<rparr>]\<rparr>)))"

definition toggle_task :: "session \<Rightarrow> nat \<Rightarrow> db \<Rightarrow> response \<times> db" where
  "toggle_task sess tid d =
     login_required sess d
       (case current_company_id sess of
          Inl r \<Rightarrow> (r, d)
        | Inr cid \<Rightarrow>
            (case find (\<lambda>t. t_id t = tid \<and> t_company_id t = cid) (tasks d) of
               None \<Rightarrow> (Abort 404, d)
             | Some tk \<Rightarrow>
                 (let new_status = (if t_status tk \<noteq> py ''done'' then py ''done'' else py ''todo'')
                  in (Redirect EP_dashboard,
                      d\<lparr>tasks := map (\<lambda>t. if t_id t = tid \<and> t_company_id t = cid
                                             then t\<lparr>t_status := new_status\<rparr> else t) (tasks d)\<rparr>))))"

section \<open>The running program\<close>

text \<open>The requests the routes accept, with the part of the URL and the form each one reads.\<close>

datatype request =
    ReqSetup http_method form
  | ReqSignup http_method form
  | ReqLogin http_method form
  | ReqLogout
  | ReqOwnerCompanies
  | ReqDashboard
  | ReqAddLead form
  | ReqUpdateLeadStatus nat form
  | ReqConvertLead nat form
  | ReqUpdateJobStatus nat form
  | ReqCreateInvoice nat form
  | ReqPublicInvoice pystr
  | ReqMarkPaid nat
  | ReqAddTask nat form
  | ReqToggleTask nat

definition keep :: "session \<Rightarrow> response \<times> db \<Rightarrow> response \<times> session \<times> db" where
  "keep sess r = (fst r, sess, snd r)"

definition store :: "session \<Rightarrow> session option \<Rightarrow> session" where
  "store sess new = (case new of None \<Rightarrow> sess | Some s \<Rightarrow> s)"

text \<open>One request: the response, the session cookie afterwards, the database afterwards.\<close>

fun handle :: "pylib \<Rightarrow> env \<Rightarrow> session \<Rightarrow> request \<Rightarrow> db \<Rightarrow> response \<times> session \<times> db" where
  "handle L E sess (ReqSetup m f) d = keep sess (setup_route L E m f d)"
| "handle L E sess (ReqSignup m f) d =
     (case signup L E m f d of (r, new, d') \<Rightarrow> (r, store sess new, d'))"
| "handle L E sess (ReqLogin m f) d =
     (case login L m f d of (r, new) \<Rightarrow> (r, store sess new, d))"
| "handle L E sess ReqLogout d = (fst logout, store sess (snd logout), d)"
| "handle L E sess ReqOwnerCompanies d = (owner_companies sess d, sess, d)"
| "handle L E sess ReqDashboard d = keep sess (dashboard sess d)"
| "handle L E sess (ReqAddLead f) d = keep sess (add_lead E sess f d)"
| "handle L E sess (ReqUpdateLeadStatus lid f) d = keep sess (update_lead_status sess lid f d)"
| "handle L E sess (ReqConvertLead lid f) d = keep sess (convert_lead L E sess lid f d)"
| "handle L E sess (ReqUpdateJobStatus jid f) d = keep sess (update_job_status sess jid f d)"
| "handle L E sess (ReqCreateInvoice jid f) d = keep sess (create_invoice L E sess jid f d)"
| "handle L E sess (ReqPublicInvoice tok) d = (public_invoice tok d, sess, d)"
| "handle L E sess (ReqMarkPaid iid) d = keep sess (mark_paid E sess iid d)"
| "handle L E sess (ReqAddTask jid f) d = keep sess (add_task L E sess jid f d)"
| "handle L E sess (ReqToggleTask tid) d = keep sess (toggle_task sess tid d)"

text \<open>
  The life of one database file. A start of the process runs \<open>init_db()\<close> and
  \<open>ensure_super_admin()\<close> while the module is imported, with the password of that start's
  environment; the routes are served only when both returned. A request arrives with any
  session cookie. The state is whether the process is serving, and the database.
\<close>

datatype event = Start "pystr option" env | Request env session request

fun exec :: "pylib \<Rightarrow> event list \<Rightarrow> bool \<times> db \<Rightarrow> bool \<times> db" where
  "exec L [] s = s"
| "exec L (Start pw E # evs) (serving, d) =
     (case ensure_super_admin L pw E (init_db d) of
        (None, d') \<Rightarrow> exec L evs (True, d')
      | (Some e, d') \<Rightarrow> exec L evs (False, d'))"
| "exec L (Request E sess rq # evs) (serving, d) =
     (if serving then exec L evs (True, snd (snd (handle L E sess rq d)))
      else exec L evs (False, d))"

section \<open>Notions used in the statements\<close>

text \<open>
  A session that passes \<open>login_required\<close> and for which \<open>current_company_id()\<close> is \<open>cid\<close>.
\<close>

definition authenticated :: "session \<Rightarrow> nat \<Rightarrow> bool" where
  "authenticated sess cid = (truthy (user_id sess) \<and> company_id sess = Some cid \<and> cid \<noteq> 0)"

definition has_super_admin :: "db \<Rightarrow> bool" where
  "has_super_admin d = (\<exists>u \<in> set (users d). role u = py ''super_admin'')"

text \<open>
  A database file before the first start of the program: the tables of companies, users
  and tasks are empty. Leads, jobs and invoices may hold rows from before the tenant
  tables existed (the rows \<open>init_db\<close> and \<open>/setup\<close> speak of).
\<close>

definition initial :: "db \<Rightarrow> bool" where
  "initial d = (companies d = [] \<and> users d = [] \<and> tasks d = [])"

definition is_owner_company :: "company \<Rightarrow> bool" where
  "is_owner_company c = (c_name c = py ''APtech Solutions'')"

definition is_super_admin :: "user \<Rightarrow> bool" where
  "is_super_admin u = (role u = py ''super_admin'')"

text \<open>
  What holds of the serving flag and the database in every state the program reaches from
  an initial database: while the routes are served a super-admin exists; as long as none
  exists there is no user at all and at most one owner company; and there is never more
  than one super-admin.
\<close>

definition bootstrap_inv :: "bool \<times> db \<Rightarrow> bool" where
  "bootstrap_inv s =
     ((fst s \<longrightarrow> has_super_admin (snd s)) \<and>
      (\<not> has_super_admin (snd s) \<longrightarrow>
         users (snd s) = [] \<and> length (filter is_owner_company (companies (snd s))) \<le> 1) \<and>
      length (filter is_super_admin (users (snd s))) \<le> 1)"

text \<open>Every task is \<open>todo\<close> or \<open>done\<close>, and no two tasks share an id.\<close>

definition tasks_inv :: "db \<Rightarrow> bool" where
  "tasks_inv d =
     ((\<forall>t \<in> set (tasks d). t_status t = py ''todo'' \<or> t_status t = py ''done'') \<and>
      distinct (map t_id (tasks d)))"

section \<open>Concrete data for the examples\<close>

text \<open>
  One instance of the library parameters, for the closed examples only: it gives Python's
  answer on the strings the examples pass to it (ASCII names, the two dates, the amount
  \<open>150\<close>) and is arbitrary elsewhere.
\<close>

definition lib0 :: pylib where
  "lib0 = \<lparr>strptime_ok = (\<lambda>s. s = py ''2024-05-01'' \<or> s = py ''2024-05-15''),
           float_of = (\<lambda>s. if s = py ''150'' then Some (Finite 150) else None),
           lower = map (\<lambda>c. if 65 \<le> c \<and> c \<le> 90 then c + 32 else c),
           generate_password_hash = (\<lambda>p s. s @ p),
           check_password_hash = (\<lambda>h p. drop (length h - length p) h = p)\<rparr>"

definition env0 :: env where
  "env0 = \<lparr>now = py ''2024-04-30T09:00:00'', now2 = py ''2024-04-30T09:00:01'',
           token = py ''Zm9vYmFyYmF6cXV4Zm9vYmFyYmF6cXV4'', salt = py ''salt''\<rparr>"

definition env1 :: env where
  "env1 = \<lparr>now = py ''2024-05-02T10:00:00'', now2 = py ''2024-05-02T10:00:01'',
           token = py ''cXV1eGJhemJhcmZvb1F1dXhCYXpCYXJG'', salt = py ''pepper''\<rparr>"

definition form_of :: "(string \<times> string) list \<Rightarrow> form" where
  "form_of kvs = map_of (map (\<lambda>(k, v). (py k, py v)) kvs)"

definition alice :: session where
  "alice = \<lparr>user_id = Some 2, company_id = Some 2\<rparr>"

definition bob :: session where
  "bob = \<lparr>user_id = Some 3, company_id = Some 3\<rparr>"

definition owner_session :: session where
  "owner_session = \<lparr>user_id = Some 1, company_id = Some 1\<rparr>"

definition demo_lead :: lead where
  "demo_lead =
     \<lparr>l_id = 1, l_name = py ''Jane'', phone = py ''555-1000'', l_status = py ''Won'',
      l_created_at = py ''2024-04-30T09:00:00'', service_type = None, source = None,
      address = None, l_notes = None, l_company_id = Some 2\<rparr>"

definition demo_job :: job where
  "demo_job =
     \<lparr>j_id = 1, lead_id = Some 1, customer_name = py ''Jane'', j_status = py ''Scheduled'',
      j_created_at = py ''2024-04-30T09:00:00'', scheduled_date = Some (py ''2024-05-01''),
      technician = None, j_notes = None, j_company_id = Some 2\<rparr>"

definition demo_invoice :: invoice where
  "demo_invoice =
     \<lparr>i_id = 1, i_job_id = 1, amount = Finite 150, i_status = py ''Unpaid'',
      i_created_at = py ''2024-04-30T09:00:00'', paid_at = None,
      due_date = Some (py ''2024-05-15''), public_token = Some (py ''Zm9vYmFyYmF6cXV4Zm9vYmFyYmF6cXV4''),
      customer_email = None, i_company_id = Some 2\<rparr>"

definition demo_task :: task where
  "demo_task =
     \<lparr>t_id = 1, t_company_id = 2, t_job_id = 1, title = py ''Call Jane'',
      t_status = py ''todo'', t_due_date = None, assigned_to = None,
      t_created_at = py ''2024-04-30T09:00:00''\<rparr>"

text \<open>
  The owner company with the super-admin, and two tenants: Acme (company 2, user alice)
  with one lead, its job, an invoice and a task, and Bolt (company 3, user bob) with
  nothing.
\<close>

definition demo_db :: db where
  "demo_db =
     \<lparr>companies =
        [\<lparr>c_id = 1, c_name = py ''APtech Solutions'', c_created_at = py ''2024-04-30T09:00:00''\<rparr>,
         \<lparr>c_id = 2, c_name = py ''Acme'', c_created_at = py ''2024-04-30T09:00:00''\<rparr>,
         \<lparr>c_id = 3, c_name = py ''Bolt'', c_created_at = py ''2024-04-30T09:00:00''\<rparr>],
      users =
        [\<lparr>u_id = 1, u_company_id = Some 1, username = py ''aptech_owner'',
          password_hash = py ''saltpw'', role = py ''super_admin'',
          u_created_at = py ''2024-04-30T09:00:01''\<rparr>,
         \<lparr>u_id = 2, u_company_id = Some 2, username = py ''alice'',
          password_hash = py ''saltpw'', role = py ''admin'',
          u_created_at = py ''2024-04-30T09:00:01''\<rparr>,
         \<lparr>u_id = 3, u_company_id = Some 3, username = py ''bob'',
          password_hash = py ''saltpw'', role = py ''admin'',
          u_created_at = py ''2024-04-30T09:00:01''\<rparr>],
      leads = [demo_lead], jobs = [demo_job], invoices = [demo_invoice],
      tasks = [demo_task]\<rparr>"

text \<open>
  The database after the first start on an empty file, a short history of the process
  (first start, then the owner adds a lead, converts it and adds a task), and the database
  that history ends in.
\<close>

definition boot_db :: db where
  "boot_db =
     \<lparr>companies =
        [\<lparr>c_id = 1, c_name = py ''APtech Solutions'', c_created_at = py ''2024-04-30T09:00:00''\<rparr>],
      users =
        [\<lparr>u_id = 1, u_company_id = Some 1, username = py ''aptech_owner'',
          password_hash = py ''saltpw'', role = py ''super_admin'',
          u_created_at = py ''2024-04-30T09:00:01''\<rparr>],
      leads = [], jobs = [], invoices = [], tasks = []\<rparr>"

definition reach_events :: "event list" where
  "reach_events =
     [Start (Some (py ''pw'')) env0,
      Request env0 owner_session (ReqAddLead (form_of [(''name'', ''Jane''), (''phone'', ''555-1000'')])),
      Request env0 owner_session (ReqConvertLead 1 (form_of [])),
      Request env1 owner_session (ReqAddTask 1 (form_of [(''title'', ''Call Jane'')]))]"

definition reach_task :: task where
  "reach_task =
     \<lparr>t_id = 1, t_company_id = 1, t_job_id = 1, title = py ''Call Jane'',
      t_status = py ''todo'', t_due_date = None, assigned_to = None,
      t_created_at = py ''2024-05-02T10:00:00''\<rparr>"

definition reach_db :: db where
  "reach_db =
     boot_db\<lparr>leads :=
        [\<lparr>l_id = 1, l_name = py ''Jane'', phone = py ''555-1000'', l_status = py ''Scheduled'',
          l_created_at = py ''2024-04-30T09:00:00'', service_type = None, source = None,
          address = None, l_notes = None, l_company_id = Some 1\<rparr>],
       jobs :=
        [\<lparr>j_id = 1, lead_id = Some 1, customer_name = py ''Jane'', j_status = py ''Scheduled'',
          j_created_at = py ''2024-04-30T09:00:00'', scheduled_date = None,
          technician = None, j_notes = None, j_company_id = Some 1\<rparr>],
       tasks := [reach_task]\<rparr>"

text \<open>
  Two signups that ask for the same username, on the database after the first start. The
  first request is \<open>signup_a\<close>; \<open>race_db1\<close> is the database when its first transaction
  (the company Acme) is committed; the second request \<open>signup_b\<close> then runs whole, and
  \<open>race_db2\<close> is the database after it.
\<close>

definition signup_a :: form where
  "signup_a = form_of [(''company_name'', ''Acme''), (''username'', ''alice''), (''password'', ''pw'')]"

definition signup_b :: form where
  "signup_b = form_of [(''company_name'', ''Bolt''), (''username'', ''alice''), (''password'', ''pw2'')]"

definition race_db1 :: db where
  "race_db1 =
     boot_db\<lparr>companies := companies boot_db @
       [\<lparr>c_id = 2, c_name = py ''Acme'', c_created_at = py ''2024-04-30T09:00:00''\<rparr>]\<rparr>"

definition race_db2 :: db where
  "race_db2 =
     race_db1\<lparr>companies := companies race_db1 @
       [\<lparr>c_id = 3, c_name = py ''Bolt'', c_created_at = py ''2024-05-02T10:00:00''\<rparr>],
      users := users race_db1 @
       [\<lparr>u_id = 2, u_company_id = Some 3, username = py ''alice'',
         password_hash = py ''pepperpw2'', role = py ''admin'',
         u_created_at = py ''2024-05-02T10:00:01''\<rparr>]\<rparr>"

section \<open>Basic facts\<close>

lemma py_eq [simp]: "py a = py b \<longleftrightarrow> a = b"
  unfolding py_def by (simp add: inj_map_eq_map inj_on_def)

lemma py_Nil [simp]: "py a = [] \<longleftrightarrow> a = []" "[] = py a \<longleftrightarrow> a = []"
  unfolding py_def by auto

lemma strip_Nil [simp]: "strip [] = []"
  by (simp add: strip_def)

lemma le_next_id: "i \<in> set ids \<Longrightarrow> i < next_id ids"
  unfolding next_id_def by (induction ids) (auto simp: less_Suc_eq_le max_def)

lemma next_id_fresh: "next_id ids \<notin> set ids"
  using le_next_id by blast

lemma login_required_auth: "authenticated sess cid \<Longrightarrow> login_required sess d view = view"
  by (auto simp: authenticated_def login_required_def truthy_def)

lemma current_company_id_auth: "authenticated sess cid \<Longrightarrow> current_company_id sess = Inr cid"
  by (simp add: authenticated_def current_company_id_def)

lemma find_map_upd:
  "find P xs = Some x \<Longrightarrow> (\<And>y. P (g y) = P y) \<Longrightarrow>
   find P (map (\<lambda>y. if P y then g y else y) xs) = Some (g x)"
  by (induction xs) (auto split: if_splits)

lemma find_None_foreign:
  "\<forall>x \<in> set xs. k x = i \<longrightarrow> c x \<noteq> v \<Longrightarrow> find (\<lambda>x. k x = i \<and> c x = v) xs = None"
  by (auto simp: find_None_iff)

lemma authenticated_alice: "authenticated alice 2"
  by (simp add: authenticated_def alice_def truthy_def)

lemma authenticated_bob: "authenticated bob 3"
  by (simp add: authenticated_def bob_def truthy_def)

section \<open>Invoices: marking paid\<close>

lemma mark_paid_auth:
  "authenticated sess cid \<Longrightarrow>
   find (\<lambda>i. i_id i = iid \<and> i_company_id i = Some cid) (invoices d) = Some iv \<Longrightarrow>
   mark_paid E sess iid d =
     (Redirect EP_dashboard,
      d\<lparr>invoices := map (\<lambda>i. if i_id i = iid \<and> i_company_id i = Some cid
                              then i\<lparr>i_status := py ''Paid'', paid_at := Some (now E)\<rparr> else i)
                         (invoices d)\<rparr>)"
  by (simp add: mark_paid_def login_required_auth current_company_id_auth)

text \<open>
  Claim C5. For a logged-in session of company \<open>cid\<close> and an invoice of that company (the
  row the handler's \<open>SELECT\<close> returns), \<open>mark_paid\<close> redirects to the dashboard and leaves the
  invoice with status \<open>Paid\<close> and \<open>paid_at\<close> the time of the call. A second call on the
  invoice, now \<open>Paid\<close>, succeeds in the same way and overwrites \<open>paid_at\<close> with the time of
  the second call: nothing guards the transition.
\<close>

theorem mark_paid_restamps:
  assumes auth: "authenticated sess cid"
    and row: "find (\<lambda>i. i_id i = iid \<and> i_company_id i = Some cid) (invoices d) = Some iv"
    and d1: "d1 = snd (mark_paid E1 sess iid d)"
    and d2: "d2 = snd (mark_paid E2 sess iid d1)"
  shows "fst (mark_paid E1 sess iid d) = Redirect EP_dashboard \<and>
         find (\<lambda>i. i_id i = iid \<and> i_company_id i = Some cid) (invoices d1) =
           Some (iv\<lparr>i_status := py ''Paid'', paid_at := Some (now E1)\<rparr>) \<and>
         fst (mark_paid E2 sess iid d1) = Redirect EP_dashboard \<and>
         find (\<lambda>i. i_id i = iid \<and> i_company_id i = Some cid) (invoices d2) =
           Some (iv\<lparr>i_status := py ''Paid'', paid_at := Some (now E2)\<rparr>)"
proof -
  let ?P = "\<lambda>i. i_id i = iid \<and> i_company_id i = Some cid"
  have r1: "find ?P (invoices d1) = Some (iv\<lparr>i_status := py ''Paid'', paid_at := Some (now E1)\<rparr>)"
    unfolding d1 mark_paid_auth [OF auth row, of E1]
    using find_map_upd [of ?P "invoices d" iv
        "\<lambda>i. i\<lparr>i_status := py ''Paid'', paid_at := Some (now E1)\<rparr>"] row
    by simp
  have r2: "find ?P (invoices d2) = Some (iv\<lparr>i_status := py ''Paid'', paid_at := Some (now E2)\<rparr>)"
    unfolding d2 mark_paid_auth [OF auth r1, of E2]
    using find_map_upd [of ?P "invoices d1"
        "iv\<lparr>i_status := py ''Paid'', paid_at := Some (now E1)\<rparr>"
        "\<lambda>i. i\<lparr>i_status := py ''Paid'', paid_at := Some (now E2)\<rparr>"] r1
    by simp
  show ?thesis
    using r1 r2 mark_paid_auth [OF auth row, of E1] mark_paid_auth [OF auth r1, of E2]
    by simp
qed

theorem mark_paid_restamps_witness:
  "authenticated alice 2 \<and>
   find (\<lambda>i. i_id i = 1 \<and> i_company_id i = Some 2) (invoices demo_db) = Some demo_invoice \<and>
   fst (mark_paid env0 alice 1 demo_db) = Redirect EP_dashboard \<and>
   find (\<lambda>i. i_id i = 1 \<and> i_company_id i = Some 2) (invoices (snd (mark_paid env0 alice 1 demo_db))) =
     Some (demo_invoice\<lparr>i_status := py ''Paid'', paid_at := Some (py ''2024-04-30T09:00:00'')\<rparr>) \<and>
   fst (mark_paid env1 alice 1 (snd (mark_paid env0 alice 1 demo_db))) = Redirect EP_dashboard \<and>
   find (\<lambda>i. i_id i = 1 \<and> i_company_id i = Some 2)
     (invoices (snd (mark_paid env1 alice 1 (snd (mark_paid env0 alice 1 demo_db))))) =
     Some (demo_invoice\<lparr>i_status := py ''Paid'', paid_at := Some (py ''2024-05-02T10:00:00'')\<rparr>)"
proof -
  have row: "find (\<lambda>i. i_id i = 1 \<and> i_company_id i = Some 2) (invoices demo_db) = Some demo_invoice"
    by (simp add: demo_db_def demo_invoice_def)
  show ?thesis
    using mark_paid_restamps [OF authenticated_alice row refl refl, of env0 env1]
      authenticated_alice row
    by (simp add: env0_def env1_def)
qed

section \<open>Leads: conversion to a job\<close>

lemma convert_lead_auth:
  "authenticated sess cid \<Longrightarrow>
   find (\<lambda>l. l_id l = lid \<and> l_company_id l = Some cid) (leads d) = Some ld \<Longrightarrow>
   convert_lead L E sess lid f d =
     (Redirect EP_dashboard,
      d\<lparr>jobs := jobs d @
          [\<lparr>j_id = next_id (map j_id (jobs d)), lead_id = Some lid,
            customer_name = l_name ld, j_status = py ''Scheduled'',
            j_created_at = now E,
            scheduled_date = parse_date_yyyy_mm_dd L (form_get_or f ''scheduled_date'' []),
            technician = or_none (strip (form_get_or f ''technician'' [])),
            j_notes = None, j_company_id = Some cid\<rparr>],
        leads := map (\<lambda>l. if l_id l = lid \<and> l_company_id l = Some cid
                               then l\<lparr>l_status := py ''Scheduled''\<rparr> else l) (leads d)\<rparr>)"
  by (simp add: convert_lead_def login_required_auth current_company_id_auth Let_def)

text \<open>
  Claim C4. For a logged-in session of company \<open>cid\<close> and a lead of that company (the row
  the handler's \<open>SELECT\<close> returns), whatever the lead's status, \<open>convert_lead\<close> redirects to
  the dashboard, appends one job whose \<open>customer_name\<close> is the lead's name, whose status is
  \<open>Scheduled\<close> and which refers to the lead, and leaves the lead with status \<open>Scheduled\<close>.
  A second conversion of the same lead does the same again: two new jobs with different
  ids, and the lead still \<open>Scheduled\<close>.
\<close>

theorem convert_lead_twice:
  assumes auth: "authenticated sess cid"
    and row: "find (\<lambda>l. l_id l = lid \<and> l_company_id l = Some cid) (leads d) = Some ld"
    and d1: "d1 = snd (convert_lead L E1 sess lid f1 d)"
    and d2: "d2 = snd (convert_lead L E2 sess lid f2 d1)"
  shows "fst (convert_lead L E1 sess lid f1 d) = Redirect EP_dashboard \<and>
         fst (convert_lead L E2 sess lid f2 d1) = Redirect EP_dashboard \<and>
         (\<exists>j1 j2. jobs d1 = jobs d @ [j1] \<and> jobs d2 = jobs d @ [j1, j2] \<and>
            customer_name j1 = l_name ld \<and> customer_name j2 = l_name ld \<and>
            j_status j1 = py ''Scheduled'' \<and> j_status j2 = py ''Scheduled'' \<and>
            lead_id j1 = Some lid \<and> lead_id j2 = Some lid \<and>
            j_company_id j1 = Some cid \<and> j_company_id j2 = Some cid \<and>
            j_id j1 \<notin> j_id ` set (jobs d) \<and> j_id j2 \<notin> j_id ` set (jobs d) \<and> j_id j1 \<noteq> j_id j2) \<and>
         find (\<lambda>l. l_id l = lid \<and> l_company_id l = Some cid) (leads d1) =
           Some (ld\<lparr>l_status := py ''Scheduled''\<rparr>) \<and>
         find (\<lambda>l. l_id l = lid \<and> l_company_id l = Some cid) (leads d2) =
           Some (ld\<lparr>l_status := py ''Scheduled''\<rparr>)"
proof -
  let ?P = "\<lambda>l. l_id l = lid \<and> l_company_id l = Some cid"
  let ?g = "\<lambda>l. l\<lparr>l_status := py ''Scheduled''\<rparr>"
  note c1 = convert_lead_auth [OF auth row, of L E1 f1]
  have r1: "find ?P (leads d1) = Some (?g ld)"
    unfolding d1 c1 using find_map_upd [of ?P "leads d" ld ?g] row by simp
  note c2 = convert_lead_auth [OF auth r1, of L E2 f2]
  have r2: "find ?P (leads d2) = Some (?g ld)"
    unfolding d2 c2 using find_map_upd [of ?P "leads d1" "?g ld" ?g] r1 by simp
  define nj1 where "nj1 =
          \<lparr>j_id = next_id (map j_id (jobs d)), lead_id = Some lid,
            customer_name = l_name ld, j_status = py ''Scheduled'',
            j_created_at = now E1,
            scheduled_date = parse_date_yyyy_mm_dd L (form_get_or f1 ''scheduled_date'' []),
            technician = or_none (strip (form_get_or f1 ''technician'' [])),
            j_notes = None, j_company_id = Some cid\<rparr>"
  define nj2 where "nj2 =
          \<lparr>j_id = next_id (map j_id (jobs d1)), lead_id = Some lid,
            customer_name = l_name ld, j_status = py ''Scheduled'',
            j_created_at = now E2,
            scheduled_date = parse_date_yyyy_mm_dd L (form_get_or f2 ''scheduled_date'' []),
            technician = or_none (strip (form_get_or f2 ''technician'' [])),
            j_notes = None, j_company_id = Some cid\<rparr>"
  have j1: "jobs d1 = jobs d @ [nj1]"
    unfolding d1 c1 nj1_def by simp
  have j2: "jobs d2 = jobs d @ [nj1, nj2]"
    unfolding d2 c2 nj2_def using j1 by simp
  have n1: "j_id nj1 \<notin> j_id ` set (jobs d)"
    using next_id_fresh [of "map j_id (jobs d)"] by (simp add: nj1_def)
  have n2: "j_id nj2 \<notin> j_id ` set (jobs d1)"
    using next_id_fresh [of "map j_id (jobs d1)"] by (simp add: nj2_def)
  have n3: "j_id nj2 \<notin> j_id ` set (jobs d)" and n4: "j_id nj1 \<noteq> j_id nj2"
    using n2 unfolding j1 by auto
  have fields: "customer_name nj1 = l_name ld" "customer_name nj2 = l_name ld"
    "j_status nj1 = py ''Scheduled''" "j_status nj2 = py ''Scheduled''"
    "lead_id nj1 = Some lid" "lead_id nj2 = Some lid"
    "j_company_id nj1 = Some cid" "j_company_id nj2 = Some cid"
    by (simp_all add: nj1_def nj2_def)
  have "\<exists>j1 j2. jobs d1 = jobs d @ [j1] \<and> jobs d2 = jobs d @ [j1, j2] \<and>
            customer_name j1 = l_name ld \<and> customer_name j2 = l_name ld \<and>
            j_status j1 = py ''Scheduled'' \<and> j_status j2 = py ''Scheduled'' \<and>
            lead_id j1 = Some lid \<and> lead_id j2 = Some lid \<and>
            j_company_id j1 = Some cid \<and> j_company_id j2 = Some cid \<and>
            j_id j1 \<notin> j_id ` set (jobs d) \<and> j_id j2 \<notin> j_id ` set (jobs d) \<and> j_id j1 \<noteq> j_id j2"
    using j1 j2 n1 n3 n4 fields by blast
  then show ?thesis using c1 c2 r1 r2 by simp
qed

theorem convert_lead_twice_witness:
  "authenticated alice 2 \<and>
   find (\<lambda>l. l_id l = 1 \<and> l_company_id l = Some 2) (leads demo_db) = Some demo_lead \<and>
   l_status demo_lead = py ''Won'' \<and>
   fst (convert_lead lib0 env0 alice 1 (form_of []) demo_db) = Redirect EP_dashboard \<and>
   fst (convert_lead lib0 env1 alice 1 (form_of [])
         (snd (convert_lead lib0 env0 alice 1 (form_of []) demo_db))) = Redirect EP_dashboard \<and>
   (\<exists>j1 j2.
      jobs (snd (convert_lead lib0 env0 alice 1 (form_of []) demo_db)) = jobs demo_db @ [j1] \<and>
      jobs (snd (convert_lead lib0 env1 alice 1 (form_of [])
                   (snd (convert_lead lib0 env0 alice 1 (form_of []) demo_db)))) =
        jobs demo_db @ [j1, j2] \<and>
      customer_name j1 = py ''Jane'' \<and> customer_name j2 = py ''Jane'' \<and>
      j_status j1 = py ''Scheduled'' \<and> j_status j2 = py ''Scheduled'' \<and> j_id j1 \<noteq> j_id j2) \<and>
   find (\<lambda>l. l_id l = 1 \<and> l_company_id l = Some 2)
     (leads (snd (convert_lead lib0 env1 alice 1 (form_of [])
                   (snd (convert_lead lib0 env0 alice 1 (form_of []) demo_db))))) =
     Some (demo_lead\<lparr>l_status := py ''Scheduled''\<rparr>)"
proof -
  have row: "find (\<lambda>l. l_id l = 1 \<and> l_company_id l = Some 2) (leads demo_db) = Some demo_lead"
    by (simp add: demo_db_def demo_lead_def)
  have nm: "l_name demo_lead = py ''Jane''" "l_status demo_lead = py ''Won''"
    by (simp_all add: demo_lead_def)
  show ?thesis
    using convert_lead_twice [OF authenticated_alice row refl refl, of lib0 env0 "form_of []" env1 "form_of []"]
      authenticated_alice row nm
    by (simp only:) blast
qed

section \<open>Leads: status updates\<close>

lemma lead_statuses_set:
  "set lead_statuses = {py ''New'', py ''Contacted'', py ''Scheduled'', py ''Won'', py ''Lost''}"
  by (simp add: lead_statuses_def)

lemma or_str_default: "v = None \<or> v = Some [] \<Longrightarrow> or_str v d = d"
  by (auto simp: or_str_def)

lemma strip_New: "strip (py ''New'') = py ''New''"
  by (simp add: py_def strip_def isspace_def)

lemma update_lead_status_auth:
  "authenticated sess cid \<Longrightarrow>
   update_lead_status sess lid f d =
     (let status = strip (or_str (form_get f ''status'') (py ''New''))
      in if status \<notin> set lead_statuses then (Abort 400, d)
         else case find (\<lambda>l. l_id l = lid \<and> l_company_id l = Some cid) (leads d) of
                None \<Rightarrow> (Abort 404, d)
              | Some ld \<Rightarrow>
                  (Redirect EP_dashboard,
                   d\<lparr>leads := map (\<lambda>l. if l_id l = lid \<and> l_company_id l = Some cid
                                          then l\<lparr>l_status := status\<rparr> else l) (leads d)\<rparr>))"
  by (simp add: update_lead_status_def login_required_auth current_company_id_auth)

text \<open>
  Claim C2 as stated fails for a missing status: the request of a logged-in user for a lead
  of her company, with no \<open>status\<close> field, is not rejected; it succeeds and overwrites the
  stored status \<open>Won\<close> with \<open>New\<close>.
\<close>

theorem update_lead_status_missing_counterexample:
  "authenticated alice 2 \<and> leads demo_db = [demo_lead] \<and> l_id demo_lead = 1 \<and>
   l_company_id demo_lead = Some 2 \<and> l_status demo_lead = py ''Won'' \<and>
   form_get (form_of []) ''status'' = None \<and>
   update_lead_status alice 1 (form_of []) demo_db =
     (Redirect EP_dashboard, demo_db\<lparr>leads := [demo_lead\<lparr>l_status := py ''New''\<rparr>]\<rparr>)"
proof -
  have f: "form_get (form_of []) ''status'' = None"
    by (simp add: form_get_def form_of_def)
  have l: "leads demo_db = [demo_lead]" "l_id demo_lead = 1" "l_company_id demo_lead = Some 2"
    "l_status demo_lead = py ''Won''"
    by (simp_all add: demo_db_def demo_lead_def)
  have "update_lead_status alice 1 (form_of []) demo_db =
     (Redirect EP_dashboard, demo_db\<lparr>leads := [demo_lead\<lparr>l_status := py ''New''\<rparr>]\<rparr>)"
    unfolding update_lead_status_auth [OF authenticated_alice]
    by (simp add: f l or_str_def strip_New lead_statuses_def)
  then show ?thesis using authenticated_alice f l by simp
qed

text \<open>
  Claim C2, amended. The handler tests the value \<open>s\<close> it computes from the submitted one: a
  missing or empty \<open>status\<close> is replaced by \<open>New\<close>, and surrounding whitespace is stripped.
  For a logged-in session: when \<open>s\<close> is not one of the five values the request is rejected
  with 400 and the database is unchanged; the request succeeds only when \<open>s\<close> is one of the
  five; and when \<open>s\<close> is one of the five and the lead is the session's company's, the
  request succeeds and the lead's stored status is \<open>s\<close>. A missing or empty \<open>status\<close> gives
  \<open>s = New\<close>.
\<close>

theorem update_lead_status_allow_list:
  assumes auth: "authenticated sess cid"
    and s: "s = strip (or_str (form_get f ''status'') (py ''New''))"
  shows "set lead_statuses = {py ''New'', py ''Contacted'', py ''Scheduled'', py ''Won'', py ''Lost''} \<and>
         (s \<notin> set lead_statuses \<longrightarrow> update_lead_status sess lid f d = (Abort 400, d)) \<and>
         (fst (update_lead_status sess lid f d) = Redirect EP_dashboard \<longrightarrow> s \<in> set lead_statuses) \<and>
         (s \<in> set lead_statuses \<and>
          find (\<lambda>l. l_id l = lid \<and> l_company_id l = Some cid) (leads d) = Some ld \<longrightarrow>
            fst (update_lead_status sess lid f d) = Redirect EP_dashboard \<and>
            find (\<lambda>l. l_id l = lid \<and> l_company_id l = Some cid)
              (leads (snd (update_lead_status sess lid f d))) = Some (ld\<lparr>l_status := s\<rparr>)) \<and>
         (form_get f ''status'' = None \<or> form_get f ''status'' = Some [] \<longrightarrow> s = py ''New'')"
proof -
  let ?P = "\<lambda>l. l_id l = lid \<and> l_company_id l = Some cid"
  note u = update_lead_status_auth [OF auth, of lid f d, folded s]
  have a: "s \<notin> set lead_statuses \<longrightarrow> update_lead_status sess lid f d = (Abort 400, d)"
    unfolding u by (simp add: Let_def)
  have b: "fst (update_lead_status sess lid f d) = Redirect EP_dashboard \<longrightarrow> s \<in> set lead_statuses"
    unfolding u by (auto simp: Let_def split: option.splits)
  have c: "fst (update_lead_status sess lid f d) = Redirect EP_dashboard \<and>
      find ?P (leads (snd (update_lead_status sess lid f d))) = Some (ld\<lparr>l_status := s\<rparr>)"
    if ok: "s \<in> set lead_statuses" and row: "find ?P (leads d) = Some ld"
    unfolding u using ok row find_map_upd [of ?P "leads d" ld "\<lambda>l. l\<lparr>l_status := s\<rparr>"]
    by (simp add: Let_def)
  have e: "form_get f ''status'' = None \<or> form_get f ''status'' = Some [] \<longrightarrow> s = py ''New''"
    unfolding s using or_str_default [of "form_get f ''status''" "py ''New''"]
    by (auto simp: strip_New)
  show ?thesis using lead_statuses_set a b c e by blast
qed

theorem update_lead_status_allow_list_witness:
  "authenticated alice 2 \<and>
   py ''Lost'' = strip (or_str (form_get (form_of [(''status'', '' Lost '')]) ''status'') (py ''New'')) \<and>
   py ''Lost'' \<in> set lead_statuses \<and>
   find (\<lambda>l. l_id l = 1 \<and> l_company_id l = Some 2) (leads demo_db) = Some demo_lead \<and>
   fst (update_lead_status alice 1 (form_of [(''status'', '' Lost '')]) demo_db) = Redirect EP_dashboard \<and>
   find (\<lambda>l. l_id l = 1 \<and> l_company_id l = Some 2)
     (leads (snd (update_lead_status alice 1 (form_of [(''status'', '' Lost '')]) demo_db))) =
     Some (demo_lead\<lparr>l_status := py ''Lost''\<rparr>) \<and>
   py ''Bogus'' = strip (or_str (form_get (form_of [(''status'', ''Bogus'')]) ''status'') (py ''New'')) \<and>
   py ''Bogus'' \<notin> set lead_statuses \<and>
   update_lead_status alice 1 (form_of [(''status'', ''Bogus'')]) demo_db = (Abort 400, demo_db) \<and>
   form_get (form_of []) ''status'' = None \<and>
   strip (or_str (form_get (form_of []) ''status'') (py ''New'')) = py ''New''"
proof -
  have s0: "form_get (form_of []) ''status'' = None"
    by (simp add: form_get_def form_of_def)
  have s1: "py ''Lost'' = strip (or_str (form_get (form_of [(''status'', '' Lost '')]) ''status'') (py ''New''))"
    by (simp add: form_get_def form_of_def or_str_def) (simp add: py_def strip_def isspace_def)
  have s2: "py ''Bogus'' = strip (or_str (form_get (form_of [(''status'', ''Bogus'')]) ''status'') (py ''New''))"
    by (simp add: form_get_def form_of_def or_str_def) (simp add: py_def strip_def isspace_def)
  have m: "py ''Lost'' \<in> set lead_statuses" "py ''Bogus'' \<notin> set lead_statuses"
    by (simp_all add: lead_statuses_def)
  have row: "find (\<lambda>l. l_id l = 1 \<and> l_company_id l = Some 2) (leads demo_db) = Some demo_lead"
    by (simp add: demo_db_def demo_lead_def)
  show ?thesis
    using update_lead_status_allow_list [OF authenticated_alice s1, of 1 demo_db demo_lead]
      update_lead_status_allow_list [OF authenticated_alice s2, of 1 demo_db demo_lead]
      update_lead_status_allow_list [OF authenticated_alice refl, of "form_of []" 1 demo_db demo_lead]
      authenticated_alice s0 s1 s2 m row
    by blast
qed

section \<open>Tenant isolation of the mutation routes\<close>

text \<open>
  Claim C1 as stated fails where a handler validates the form before it looks the target
  up: bob, of company 3, posts the status \<open>Bogus\<close> for lead 1 of company 2, and the answer
  is 400, not 404.
\<close>

theorem cross_tenant_invalid_form_counterexample:
  "authenticated bob 3 \<and> leads demo_db = [demo_lead] \<and> l_id demo_lead = 1 \<and>
   l_company_id demo_lead = Some 2 \<and>
   update_lead_status bob 1 (form_of [(''status'', ''Bogus'')]) demo_db = (Abort 400, demo_db)"
proof -
  have s: "strip (or_str (form_get (form_of [(''status'', ''Bogus'')]) ''status'') (py ''New'')) = py ''Bogus''"
    by (simp add: form_get_def form_of_def or_str_def) (simp add: py_def strip_def isspace_def)
  have l: "leads demo_db = [demo_lead]" "l_id demo_lead = 1" "l_company_id demo_lead = Some 2"
    by (simp_all add: demo_db_def demo_lead_def)
  have "update_lead_status bob 1 (form_of [(''status'', ''Bogus'')]) demo_db = (Abort 400, demo_db)"
    unfolding update_lead_status_auth [OF authenticated_bob] s
    by (simp add: lead_statuses_def)
  then show ?thesis using authenticated_bob l by simp
qed

lemma update_job_status_auth:
  "authenticated sess cid \<Longrightarrow>
   update_job_status sess jid f d =
     (let status = strip (or_str (form_get f ''status'') (py ''Scheduled''))
      in if status \<notin> set job_statuses then (Abort 400, d)
         else case find (\<lambda>j. j_id j = jid \<and> j_company_id j = Some cid) (jobs d) of
                None \<Rightarrow> (Abort 404, d)
              | Some jb \<Rightarrow>
                  (Redirect EP_dashboard,
                   d\<lparr>jobs := map (\<lambda>j. if j_id j = jid \<and> j_company_id j = Some cid
                                         then j\<lparr>j_status := status\<rparr> else j) (jobs d)\<rparr>))"
  by (simp add: update_job_status_def login_required_auth current_company_id_auth)

lemma lead_routes_foreign:
  assumes auth: "authenticated sess cid"
    and foreign: "\<forall>l \<in> set (leads d). l_id l = lid \<longrightarrow> l_company_id l \<noteq> Some cid"
  shows "update_lead_status sess lid f d =
           (if strip (or_str (form_get f ''status'') (py ''New'')) \<in> set lead_statuses
            then Abort 404 else Abort 400, d)"
    and "convert_lead L E sess lid f d = (Abort 404, d)"
  using find_None_foreign [OF foreign]
  by (simp_all add: update_lead_status_auth [OF auth] convert_lead_def
      login_required_auth [OF auth] current_company_id_auth [OF auth] Let_def)

lemma job_routes_foreign:
  assumes auth: "authenticated sess cid"
    and foreign: "\<forall>j \<in> set (jobs d). j_id j = jid \<longrightarrow> j_company_id j \<noteq> Some cid"
  shows "update_job_status sess jid f d =
           (if strip (or_str (form_get f ''status'') (py ''Scheduled'')) \<in> set job_statuses
            then Abort 404 else Abort 400, d)"
    and "create_invoice L E sess jid f d =
           (if float_of L (strip (or_str (form_get f ''amount'') [])) = None
            then Abort 400 else Abort 404, d)"
    and "add_task L E sess jid f d =
           (if strip (or_str (form_get f ''title'') []) = [] then Abort 400 else Abort 404, d)"
  using find_None_foreign [OF foreign]
  by (auto simp: update_job_status_auth [OF auth] create_invoice_def add_task_def
      login_required_auth [OF auth] current_company_id_auth [OF auth] Let_def)

lemma invoice_route_foreign:
  assumes auth: "authenticated sess cid"
    and foreign: "\<forall>i \<in> set (invoices d). i_id i = iid \<longrightarrow> i_company_id i \<noteq> Some cid"
  shows "mark_paid E sess iid d = (Abort 404, d)"
  using find_None_foreign [OF foreign]
  by (simp add: mark_paid_def login_required_auth [OF auth] current_company_id_auth [OF auth])

lemma task_route_foreign:
  assumes auth: "authenticated sess cid"
    and foreign: "\<forall>t \<in> set (tasks d). t_id t = tid \<longrightarrow> t_company_id t \<noteq> cid"
  shows "toggle_task sess tid d = (Abort 404, d)"
  using find_None_foreign [OF foreign]
  by (simp add: toggle_task_def login_required_auth [OF auth] current_company_id_auth [OF auth])

text \<open>
  Claim C1, amended. For a logged-in session of company \<open>cid\<close> and a target row that
  exists and belongs to another company, every tenant-scoped mutation route leaves the
  database as it was and answers 404, except that the four handlers that validate the form
  before the lookup (\<open>update_lead_status\<close>, \<open>update_job_status\<close>, \<open>create_invoice\<close>,
  \<open>add_task\<close>) answer 400 when the form is invalid. The answer never carries data of the
  row, and it is the answer a missing row gets.
\<close>

theorem cross_tenant_not_found:
  assumes auth: "authenticated sess cid"
  shows
    "((\<exists>l \<in> set (leads d). l_id l = lid) \<and>
      (\<forall>l \<in> set (leads d). l_id l = lid \<longrightarrow> l_company_id l \<noteq> Some cid) \<longrightarrow>
        update_lead_status sess lid f d =
          (if strip (or_str (form_get f ''status'') (py ''New'')) \<in> set lead_statuses
           then Abort 404 else Abort 400, d) \<and>
        convert_lead L E sess lid f d = (Abort 404, d)) \<and>
     ((\<exists>j \<in> set (jobs d). j_id j = jid) \<and>
      (\<forall>j \<in> set (jobs d). j_id j = jid \<longrightarrow> j_company_id j \<noteq> Some cid) \<longrightarrow>
        update_job_status sess jid f d =
          (if strip (or_str (form_get f ''status'') (py ''Scheduled'')) \<in> set job_statuses
           then Abort 404 else Abort 400, d) \<and>
        create_invoice L E sess jid f d =
          (if float_of L (strip (or_str (form_get f ''amount'') [])) = None
           then Abort 400 else Abort 404, d) \<and>
        add_task L E sess jid f d =
          (if strip (or_str (form_get f ''title'') []) = [] then Abort 400 else Abort 404, d)) \<and>
     ((\<exists>i \<in> set (invoices d). i_id i = iid) \<and>
      (\<forall>i \<in> set (invoices d). i_id i = iid \<longrightarrow> i_company_id i \<noteq> Some cid) \<longrightarrow>
        mark_paid E sess iid d = (Abort 404, d)) \<and>
     ((\<exists>t \<in> set (tasks d). t_id t = tid) \<and>
      (\<forall>t \<in> set (tasks d). t_id t = tid \<longrightarrow> t_company_id t \<noteq> cid) \<longrightarrow>
        toggle_task sess tid d = (Abort 404, d))"
  by (intro conjI impI; elim conjE;
      simp only: lead_routes_foreign [OF auth] job_routes_foreign [OF auth]
        invoice_route_foreign [OF auth] task_route_foreign [OF auth])

theorem cross_tenant_not_found_witness:
  "authenticated bob 3 \<and>
   leads demo_db = [demo_lead] \<and> l_id demo_lead = 1 \<and> l_company_id demo_lead = Some 2 \<and>
   jobs demo_db = [demo_job] \<and> j_id demo_job = 1 \<and> j_company_id demo_job = Some 2 \<and>
   invoices demo_db = [demo_invoice] \<and> i_id demo_invoice = 1 \<and>
   i_company_id demo_invoice = Some 2 \<and>
   tasks demo_db = [demo_task] \<and> t_id demo_task = 1 \<and> t_company_id demo_task = 2 \<and>
   update_lead_status bob 1 (form_of [(''status'', ''Won''), (''amount'', ''150''), (''title'', ''Call'')])
     demo_db = (Abort 404, demo_db) \<and>
   convert_lead lib0 env1 bob 1 (form_of [(''status'', ''Won''), (''amount'', ''150''), (''title'', ''Call'')])
     demo_db = (Abort 404, demo_db) \<and>
   update_job_status bob 1 (form_of [(''status'', ''Won''), (''amount'', ''150''), (''title'', ''Call'')])
     demo_db = (Abort 400, demo_db) \<and>
   create_invoice lib0 env1 bob 1 (form_of [(''status'', ''Won''), (''amount'', ''150''), (''title'', ''Call'')])
     demo_db = (Abort 404, demo_db) \<and>
   add_task lib0 env1 bob 1 (form_of [(''status'', ''Won''), (''amount'', ''150''), (''title'', ''Call'')])
     demo_db = (Abort 404, demo_db) \<and>
   mark_paid env1 bob 1 demo_db = (Abort 404, demo_db) \<and>
   toggle_task bob 1 demo_db = (Abort 404, demo_db)"
proof -
  let ?f = "form_of [(''status'', ''Won''), (''amount'', ''150''), (''title'', ''Call'')]"
  have rows: "leads demo_db = [demo_lead]" "jobs demo_db = [demo_job]"
    "invoices demo_db = [demo_invoice]" "tasks demo_db = [demo_task]"
    "l_id demo_lead = 1" "l_company_id demo_lead = Some 2"
    "j_id demo_job = 1" "j_company_id demo_job = Some 2"
    "i_id demo_invoice = 1" "i_company_id demo_invoice = Some 2"
    "t_id demo_task = 1" "t_company_id demo_task = 2"
    by (simp_all add: demo_db_def demo_lead_def demo_job_def demo_invoice_def demo_task_def)
  have f: "form_get ?f ''status'' = Some (py ''Won'')" "form_get ?f ''amount'' = Some (py ''150'')"
    "form_get ?f ''title'' = Some (py ''Call'')"
    by (simp_all add: form_get_def form_of_def)
  have s: "strip (py ''Won'') = py ''Won''" "strip (py ''150'') = py ''150''"
    "strip (py ''Call'') = py ''Call''"
    by (simp_all add: py_def strip_def isspace_def)
  have v: "py ''Won'' \<in> set lead_statuses" "py ''Won'' \<notin> set job_statuses"
    "float_of lib0 (py ''150'') \<noteq> None"
    by (simp_all add: lead_statuses_def job_statuses_def lib0_def)
  show ?thesis
    using cross_tenant_not_found [OF authenticated_bob, of demo_db 1 ?f lib0 env1 1 1 1]
      authenticated_bob
    by (simp add: rows f s v or_str_def)
qed

section \<open>What each route changes\<close>

lemmas guard_defs = login_required_def current_company_id_def Let_def

lemma add_lead_frame:
  "users (snd (add_lead E sess f d)) = users d"
  "companies (snd (add_lead E sess f d)) = companies d"
  "tasks (snd (add_lead E sess f d)) = tasks d"
  "invoices (snd (add_lead E sess f d)) = invoices d"
  by (simp_all add: add_lead_def guard_defs split: option.splits sum.splits)

lemma update_lead_status_frame:
  "users (snd (update_lead_status sess lid f d)) = users d"
  "companies (snd (update_lead_status sess lid f d)) = companies d"
  "tasks (snd (update_lead_status sess lid f d)) = tasks d"
  "invoices (snd (update_lead_status sess lid f d)) = invoices d"
  by (simp_all add: update_lead_status_def guard_defs split: option.splits sum.splits)

lemma convert_lead_frame:
  "users (snd (convert_lead L E sess lid f d)) = users d"
  "companies (snd (convert_lead L E sess lid f d)) = companies d"
  "tasks (snd (convert_lead L E sess lid f d)) = tasks d"
  "invoices (snd (convert_lead L E sess lid f d)) = invoices d"
  by (simp_all add: convert_lead_def guard_defs split: option.splits sum.splits)

lemma update_job_status_frame:
  "users (snd (update_job_status sess jid f d)) = users d"
  "companies (snd (update_job_status sess jid f d)) = companies d"
  "tasks (snd (update_job_status sess jid f d)) = tasks d"
  "invoices (snd (update_job_status sess jid f d)) = invoices d"
  by (simp_all add: update_job_status_def guard_defs split: option.splits sum.splits)

lemma create_invoice_frame:
  "users (snd (create_invoice L E sess jid f d)) = users d"
  "companies (snd (create_invoice L E sess jid f d)) = companies d"
  "tasks (snd (create_invoice L E sess jid f d)) = tasks d"
  by (simp_all add: create_invoice_def guard_defs split: option.splits sum.splits)

lemma mark_paid_frame:
  "users (snd (mark_paid E sess iid d)) = users d"
  "companies (snd (mark_paid E sess iid d)) = companies d"
  "tasks (snd (mark_paid E sess iid d)) = tasks d"
  by (simp_all add: mark_paid_def guard_defs split: option.splits sum.splits)

lemma add_task_frame:
  "users (snd (add_task L E sess jid f d)) = users d"
  "companies (snd (add_task L E sess jid f d)) = companies d"
  "invoices (snd (add_task L E sess jid f d)) = invoices d"
  by (simp_all add: add_task_def guard_defs split: option.splits sum.splits)

lemma toggle_task_frame:
  "users (snd (toggle_task sess tid d)) = users d"
  "companies (snd (toggle_task sess tid d)) = companies d"
  "invoices (snd (toggle_task sess tid d)) = invoices d"
  by (simp_all add: toggle_task_def guard_defs split: option.splits sum.splits)

lemma dashboard_frame: "snd (dashboard sess d) = d"
  by (simp add: dashboard_def guard_defs split: option.splits sum.splits)

lemma insert_company_frame:
  "users (snd (insert_company n c d)) = users d"
  "tasks (snd (insert_company n c d)) = tasks d"
  "invoices (snd (insert_company n c d)) = invoices d"
  "companies (snd (insert_company n c d)) =
     companies d @ [\<lparr>c_id = next_id (map c_id (companies d)), c_name = n, c_created_at = c\<rparr>]"
  "fst (insert_company n c d) = next_id (map c_id (companies d))"
  by (simp_all add: insert_company_def Let_def)

lemma insert_user_Inr:
  "insert_user cid n h r c d = Inr d' \<Longrightarrow>
   d' = d\<lparr>users := users d @
        [\<lparr>u_id = next_id (map u_id (users d)), u_company_id = Some cid, username = n,
          password_hash = h, role = r, u_created_at = c\<rparr>]\<rparr> \<and>
   (\<forall>u \<in> set (users d). username u \<noteq> n)"
  by (auto simp: insert_user_def split: if_splits)

lemma setup_route_users:
  "users (snd (setup_route L E m f d)) = users d \<or>
   (\<exists>u. users (snd (setup_route L E m f d)) = users d @ [u] \<and> role u = py ''admin'')"
  by (auto simp: setup_route_def insert_company_def Let_def insert_user_def split: sum.splits prod.splits)

lemma setup_route_tasks: "tasks (snd (setup_route L E m f d)) = tasks d"
  by (auto simp: setup_route_def insert_company_def Let_def insert_user_def split: sum.splits prod.splits)

lemma signup_users:
  "users (snd (snd (signup L E m f d))) = users d \<or>
   (\<exists>u. users (snd (snd (signup L E m f d))) = users d @ [u] \<and> role u = py ''admin'')"
  by (auto simp: signup_def signup_company_def signup_user_def insert_company_def Let_def
      insert_user_def split: sum.splits prod.splits option.splits)

lemma signup_tasks: "tasks (snd (snd (signup L E m f d))) = tasks d"
  by (auto simp: signup_def signup_company_def signup_user_def insert_company_def Let_def
      insert_user_def split: sum.splits prod.splits option.splits)

section \<open>Invariants of the running program\<close>

lemma handle_signup_db:
  "snd (snd (handle L E sess (ReqSignup m f) d)) = snd (snd (signup L E m f d))"
  by (simp split: prod.splits)

lemma handle_users:
  "users (snd (snd (handle L E sess rq d))) = users d \<or>
   (\<exists>u. users (snd (snd (handle L E sess rq d))) = users d @ [u] \<and> role u = py ''admin'')"
proof (cases rq)
  case (ReqSetup m f)
  then show ?thesis using setup_route_users [of L E m f d] by (simp add: keep_def)
next
  case (ReqSignup m f)
  then show ?thesis using signup_users [of L E m f d] by (simp only: handle_signup_db)
qed (simp_all add: keep_def add_lead_frame update_lead_status_frame convert_lead_frame
    update_job_status_frame create_invoice_frame mark_paid_frame add_task_frame
    toggle_task_frame dashboard_frame split: prod.splits)

lemma add_task_tasks:
  "tasks (snd (add_task L E sess jid f d)) = tasks d \<or>
   (\<exists>t. tasks (snd (add_task L E sess jid f d)) = tasks d @ [t] \<and> t_status t = py ''todo'' \<and>
        t_id t = next_id (map t_id (tasks d)))"
  by (simp add: add_task_def guard_defs split: option.splits sum.splits)

lemma toggle_task_tasks:
  "tasks (snd (toggle_task sess tid d)) = tasks d \<or>
   (\<exists>P s. (s = py ''todo'' \<or> s = py ''done'') \<and>
      tasks (snd (toggle_task sess tid d)) = map (\<lambda>t. if P t then t\<lparr>t_status := s\<rparr> else t) (tasks d))"
proof (cases "authenticated sess (the (company_id sess))")
  case False
  then have "snd (toggle_task sess tid d) = d"
    by (auto simp: toggle_task_def guard_defs authenticated_def truthy_def split: option.splits)
  then show ?thesis by simp
next
  case True
  let ?cid = "the (company_id sess)"
  let ?P = "\<lambda>t. t_id t = tid \<and> t_company_id t = ?cid"
  show ?thesis
  proof (cases "find ?P (tasks d)")
    case None
    then show ?thesis
      by (simp add: toggle_task_def login_required_auth [OF True] current_company_id_auth [OF True])
  next
    case (Some tk)
    have "tasks (snd (toggle_task sess tid d)) =
        map (\<lambda>t. if ?P t then t\<lparr>t_status := (if t_status tk \<noteq> py ''done'' then py ''done'' else py ''todo'')\<rparr> else t) (tasks d)"
      using Some
      by (simp add: toggle_task_def login_required_auth [OF True] current_company_id_auth [OF True] Let_def)
    then show ?thesis by (intro disjI2 exI [of _ ?P] exI [of _ "if t_status tk \<noteq> py ''done'' then py ''done'' else py ''todo''"]) simp
  qed
qed

lemma tasks_inv_append:
  "tasks_inv d \<Longrightarrow> tasks d' = tasks d @ [t] \<Longrightarrow> t_status t = py ''todo'' \<Longrightarrow>
   t_id t = next_id (map t_id (tasks d)) \<Longrightarrow> tasks_inv d'"
  using next_id_fresh [of "map t_id (tasks d)"] by (auto simp: tasks_inv_def)

lemma tasks_inv_map:
  "tasks_inv d \<Longrightarrow> s = py ''todo'' \<or> s = py ''done'' \<Longrightarrow>
   tasks d' = map (\<lambda>t. if P t then t\<lparr>t_status := s\<rparr> else t) (tasks d) \<Longrightarrow> tasks_inv d'"
proof -
  assume a: "tasks_inv d" "s = py ''todo'' \<or> s = py ''done''"
    and m: "tasks d' = map (\<lambda>t. if P t then t\<lparr>t_status := s\<rparr> else t) (tasks d)"
  have "map t_id (tasks d') = map t_id (tasks d)"
    unfolding m by (induction "tasks d") auto
  moreover have "\<forall>t \<in> set (tasks d'). t_status t = py ''todo'' \<or> t_status t = py ''done''"
    unfolding m using a by (auto simp: tasks_inv_def)
  ultimately show ?thesis using a by (simp add: tasks_inv_def)
qed

lemma tasks_inv_same: "tasks_inv d \<Longrightarrow> tasks d' = tasks d \<Longrightarrow> tasks_inv d'"
  by (simp add: tasks_inv_def)

lemma handle_tasks_inv:
  assumes "tasks_inv d"
  shows "tasks_inv (snd (snd (handle L E sess rq d)))"
proof (cases rq)
  case (ReqAddTask jid f)
  then show ?thesis
    using add_task_tasks [of L E sess jid f d] assms
    by (auto simp: keep_def intro: tasks_inv_append tasks_inv_same)
next
  case (ReqToggleTask tid)
  then show ?thesis
    using toggle_task_tasks [of sess tid d] assms
    by (auto simp: keep_def intro: tasks_inv_map tasks_inv_same)
next
  case (ReqSetup m f)
  then show ?thesis using assms setup_route_tasks [of L E m f d]
    by (simp add: keep_def tasks_inv_same)
next
  case (ReqSignup m f)
  then show ?thesis using assms signup_tasks [of L E m f d]
    by (simp only: handle_signup_db tasks_inv_same)
qed (use assms in \<open>simp_all add: keep_def add_lead_frame update_lead_status_frame convert_lead_frame
    update_job_status_frame create_invoice_frame mark_paid_frame
    dashboard_frame tasks_inv_same split: prod.splits\<close>)

lemma ensure_super_admin_tasks:
  "tasks (snd (ensure_super_admin L pw E d)) = tasks d"
  by (auto simp: ensure_super_admin_def insert_company_def insert_user_def Let_def
      split: option.splits prod.splits sum.splits)

lemma ensure_super_admin_users:
  "users (snd (ensure_super_admin L pw E d)) = users d \<or>
   (\<exists>u. users (snd (ensure_super_admin L pw E d)) = users d @ [u])"
  by (auto simp: ensure_super_admin_def insert_company_def insert_user_def Let_def
      split: option.splits prod.splits sum.splits)

lemma ensure_super_admin_success_users:
  "fst (ensure_super_admin L pw E d) = None \<Longrightarrow> users (snd (ensure_super_admin L pw E d)) \<noteq> []"
  by (auto simp: ensure_super_admin_def insert_company_def insert_user_def Let_def
      split: option.splits prod.splits sum.splits if_splits)

lemma find_Some_mem: "find P xs = Some x \<Longrightarrow> x \<in> set xs \<and> P x"
  by (induction xs) (auto split: if_splits)

lemma find_None_filter: "find P xs = None \<Longrightarrow> filter P xs = []"
  by (auto simp: find_None_iff filter_empty_conv)

lemma ensure_super_admin_existing:
  "has_super_admin d \<Longrightarrow>
   fst (ensure_super_admin L pw E d) = None \<and> users (snd (ensure_super_admin L pw E d)) = users d"
  by (auto simp: ensure_super_admin_def has_super_admin_def insert_company_def Let_def
      split: option.splits prod.splits)

lemma ensure_super_admin_no_password:
  "\<not> has_super_admin d \<Longrightarrow> pw = None \<or> pw = Some [] \<Longrightarrow>
   fst (ensure_super_admin L pw E d) = Some RuntimeError \<and>
   users (snd (ensure_super_admin L pw E d)) = users d"
  by (auto simp: ensure_super_admin_def has_super_admin_def insert_company_def Let_def
      split: option.splits prod.splits)

lemma ensure_super_admin_creates:
  assumes no: "\<not> has_super_admin d" and us: "users d = []"
    and cs: "length (filter is_owner_company (companies d)) \<le> 1"
    and pw: "pw = Some p" "p \<noteq> []"
  shows "fst (ensure_super_admin L pw E d) = None \<and>
         length (filter is_owner_company (companies (snd (ensure_super_admin L pw E d)))) = 1 \<and>
         length (filter is_super_admin (users (snd (ensure_super_admin L pw E d)))) = 1"
proof (cases "find (\<lambda>c. c_name c = py ''APtech Solutions'') (companies d)")
  case None
  then have "filter is_owner_company (companies d) = []"
    using find_None_filter [of "\<lambda>c. c_name c = py ''APtech Solutions''" "companies d"]
    by (simp add: is_owner_company_def [abs_def])
  then show ?thesis using None us pw
    by (simp add: ensure_super_admin_def insert_company_def insert_user_def Let_def
        is_owner_company_def is_super_admin_def)
next
  case (Some row)
  then have "filter is_owner_company (companies d) \<noteq> []"
    by (auto simp: find_Some_iff filter_empty_conv is_owner_company_def)
  then have "length (filter is_owner_company (companies d)) = 1"
    using cs by (cases "filter is_owner_company (companies d)") auto
  then show ?thesis using Some us pw
    by (simp add: ensure_super_admin_def insert_user_def Let_def is_super_admin_def)
qed

lemma ensure_super_admin_idem:
  assumes "fst (ensure_super_admin L pw E d) = None"
  shows "ensure_super_admin L pw' E' (snd (ensure_super_admin L pw E d)) =
         (None, snd (ensure_super_admin L pw E d))"
proof -
  let ?d' = "snd (ensure_super_admin L pw E d)"
  have c: "find (\<lambda>c. c_name c = py ''APtech Solutions'') (companies ?d') \<noteq> None"
    by (auto simp: ensure_super_admin_def insert_company_def insert_user_def Let_def find_None_iff
        split: option.splits prod.splits sum.splits dest: find_Some_mem)
  have u: "\<exists>u \<in> set (users ?d'). role u = py ''super_admin''"
    using assms
    by (auto simp: ensure_super_admin_def insert_company_def insert_user_def Let_def
        split: option.splits prod.splits sum.splits if_splits)
  show ?thesis using c u
    by (auto simp: ensure_super_admin_def [of L pw' E' ?d'] Let_def split: option.splits)
qed

lemma start_bootstrap_inv:
  assumes inv: "bootstrap_inv (sv, d)"
  shows "bootstrap_inv (fst (ensure_super_admin L pw E d) = None, snd (ensure_super_admin L pw E d))"
proof (cases "has_super_admin d")
  case True
  have u: "users (snd (ensure_super_admin L pw E d)) = users d"
    and r: "fst (ensure_super_admin L pw E d) = None"
    using ensure_super_admin_existing [OF True] by simp_all
  show ?thesis using inv True by (simp add: bootstrap_inv_def u r has_super_admin_def)
next
  case False
  then have us: "users d = []" and cs: "length (filter is_owner_company (companies d)) \<le> 1"
    using inv by (simp_all add: bootstrap_inv_def)
  show ?thesis
  proof (cases "pw = None \<or> pw = Some []")
    case True
    have r: "fst (ensure_super_admin L pw E d) = Some RuntimeError"
      and u: "users (snd (ensure_super_admin L pw E d)) = []"
      using ensure_super_admin_no_password [OF False True] us by simp_all
    have c: "length (filter is_owner_company (companies (snd (ensure_super_admin L pw E d)))) \<le> 1"
    proof (cases "find (\<lambda>c. c_name c = py ''APtech Solutions'') (companies d)")
      case None
      then have "filter is_owner_company (companies d) = []"
        using find_None_filter [of "\<lambda>c. c_name c = py ''APtech Solutions''" "companies d"]
        by (simp add: is_owner_company_def [abs_def])
      then show ?thesis using None True us
        by (auto simp: ensure_super_admin_def insert_company_def Let_def is_owner_company_def)
    next
      case (Some row)
      then show ?thesis using cs True us
        by (auto simp: ensure_super_admin_def Let_def)
    qed
    show ?thesis using c by (simp add: bootstrap_inv_def r u has_super_admin_def)
  next
    case no: False
    then obtain p where pw: "pw = Some p" "p \<noteq> []" by (cases pw) auto
    note cr = ensure_super_admin_creates [OF False us cs pw, of L E]
    have "filter is_super_admin (users (snd (ensure_super_admin L pw E d))) \<noteq> []"
      using cr by auto
    then have "has_super_admin (snd (ensure_super_admin L pw E d))"
      by (auto simp: filter_empty_conv has_super_admin_def is_super_admin_def)
    then show ?thesis using cr by (simp add: bootstrap_inv_def)
  qed
qed

lemma request_bootstrap_inv:
  assumes inv: "bootstrap_inv (True, d)"
  shows "bootstrap_inv (True, snd (snd (handle L E sess rq d)))"
proof -
  let ?d' = "snd (snd (handle L E sess rq d))"
  have sa: "has_super_admin d" and n: "length (filter is_super_admin (users d)) \<le> 1"
    using inv by (simp_all add: bootstrap_inv_def)
  from handle_users [of L E sess rq d]
  have "has_super_admin ?d' \<and> length (filter is_super_admin (users ?d')) \<le> 1"
    using sa n by (auto simp: has_super_admin_def is_super_admin_def)
  then show ?thesis by (simp add: bootstrap_inv_def)
qed

lemma exec_bootstrap_inv: "bootstrap_inv s \<Longrightarrow> bootstrap_inv (exec L evs s)"
proof (induction evs arbitrary: s)
  case Nil
  then show ?case by simp
next
  case (Cons ev evs)
  obtain sv d where s: "s = (sv, d)" by (cases s)
  show ?case
  proof (cases ev)
    case (Start pw E)
    have "bootstrap_inv (fst (ensure_super_admin L pw E d) = None, snd (ensure_super_admin L pw E d))"
      using start_bootstrap_inv Cons.prems s by blast
    then show ?thesis using Cons.IH Start s
      by (auto simp: init_db_def split: prod.splits option.splits)
  next
    case (Request E sess rq)
    show ?thesis
    proof (cases sv)
      case True
      then show ?thesis
        using Cons.IH [OF request_bootstrap_inv] Cons.prems Request s by simp
    next
      case False
      then show ?thesis using Cons.IH Cons.prems Request s by simp
    qed
  qed
qed

lemma exec_tasks_inv: "tasks_inv (snd s) \<Longrightarrow> tasks_inv (snd (exec L evs s))"
proof (induction evs arbitrary: s)
  case Nil
  then show ?case by simp
next
  case (Cons ev evs)
  obtain sv d where s: "s = (sv, d)" by (cases s)
  show ?case
  proof (cases ev)
    case (Start pw E)
    have "tasks_inv (snd (ensure_super_admin L pw E d))"
      using Cons.prems s ensure_super_admin_tasks [of L pw E d] by (simp add: tasks_inv_same)
    then show ?thesis using Cons.IH Start s
      by (auto simp: init_db_def split: prod.splits option.splits)
  next
    case (Request E sess rq)
    then show ?thesis
      using Cons.IH [of "(True, snd (snd (handle L E sess rq d)))"] Cons.IH [of "(False, d)"]
        handle_tasks_inv [of d L E sess rq] Cons.prems s
      by simp
  qed
qed

lemma exec_users_nonempty: "users (snd s) \<noteq> [] \<Longrightarrow> users (snd (exec L evs s)) \<noteq> []"
proof (induction evs arbitrary: s)
  case Nil
  then show ?case by simp
next
  case (Cons ev evs)
  obtain sv d where s: "s = (sv, d)" by (cases s)
  show ?case
  proof (cases ev)
    case (Start pw E)
    have "users (snd (ensure_super_admin L pw E d)) \<noteq> []"
      using Cons.prems s ensure_super_admin_users [of L pw E d] by auto
    then show ?thesis using Cons.IH Start s
      by (auto simp: init_db_def split: prod.splits option.splits)
  next
    case (Request E sess rq)
    have "users (snd (snd (handle L E sess rq d))) \<noteq> []"
      using Cons.prems s handle_users [of L E sess rq d] by auto
    then show ?thesis
      using Cons.IH [of "(True, snd (snd (handle L E sess rq d)))"] Cons.IH [of "(False, d)"]
        Cons.prems Request s
      by simp
  qed
qed

lemma initial_bootstrap_inv: "initial d \<Longrightarrow> bootstrap_inv (False, d)"
  by (simp add: initial_def bootstrap_inv_def has_super_admin_def)

lemma initial_tasks_inv: "initial d \<Longrightarrow> tasks_inv d"
  by (simp add: initial_def tasks_inv_def)

section \<open>Evaluating the example history\<close>

lemma py_append: "py a @ py b = py (a @ b)"
  by (simp add: py_def)

lemma next_id_Nil: "next_id [] = 1"
  by (simp add: next_id_def)

lemma boot_eval:
  "ensure_super_admin lib0 (Some (py ''pw'')) env0 (init_db empty_db) = (None, boot_db)"
  by (simp add: ensure_super_admin_def init_db_def insert_company_def insert_user_def
      empty_db_def boot_db_def lib0_def env0_def next_id_Nil py_append)

lemma authenticated_owner: "authenticated owner_session 1"
  by (simp add: authenticated_def owner_session_def truthy_def)

lemma strip_lits:
  "strip (py ''Jane'') = py ''Jane''" "strip (py ''555-1000'') = py ''555-1000''"
  "strip (py ''Call Jane'') = py ''Call Jane''"
  by (simp_all add: py_def strip_def isspace_def)

lemma reach_step1:
  "snd (add_lead env0 owner_session (form_of [(''name'', ''Jane''), (''phone'', ''555-1000'')]) boot_db) =
   boot_db\<lparr>leads :=
        [\<lparr>l_id = 1, l_name = py ''Jane'', phone = py ''555-1000'', l_status = py ''New'',
          l_created_at = py ''2024-04-30T09:00:00'', service_type = None, source = None,
          address = None, l_notes = None, l_company_id = Some 1\<rparr>]\<rparr>"
  by (simp add: add_lead_def login_required_auth [OF authenticated_owner]
      current_company_id_auth [OF authenticated_owner] form_get_or_def form_of_def strip_lits
      or_none_def boot_db_def env0_def next_id_Nil)

lemma reach_step2:
  "snd (convert_lead lib0 env0 owner_session 1 (form_of [])
     (boot_db\<lparr>leads :=
        [\<lparr>l_id = 1, l_name = py ''Jane'', phone = py ''555-1000'', l_status = py ''New'',
          l_created_at = py ''2024-04-30T09:00:00'', service_type = None, source = None,
          address = None, l_notes = None, l_company_id = Some 1\<rparr>]\<rparr>)) =
   reach_db\<lparr>tasks := []\<rparr>"
  by (simp add: convert_lead_def login_required_auth [OF authenticated_owner]
      current_company_id_auth [OF authenticated_owner] form_get_or_def form_of_def
      or_none_def boot_db_def reach_db_def env0_def next_id_Nil parse_date_yyyy_mm_dd_def)

lemma reach_step3:
  "snd (add_task lib0 env1 owner_session 1 (form_of [(''title'', ''Call Jane'')]) (reach_db\<lparr>tasks := []\<rparr>)) =
   reach_db"
  by (simp add: add_task_def login_required_auth [OF authenticated_owner]
      current_company_id_auth [OF authenticated_owner] form_get_or_def form_get_def form_of_def
      strip_lits or_none_def or_str_def boot_db_def reach_db_def reach_task_def env1_def next_id_Nil
      parse_date_yyyy_mm_dd_def)

lemma reach_exec: "exec lib0 reach_events (False, empty_db) = (True, reach_db)"
  by (simp only: reach_events_def exec.simps handle.simps boot_eval keep_def snd_conv fst_conv
      prod.case option.case if_True reach_step1 reach_step2 reach_step3)

section \<open>The first-tenant route after startup\<close>

text \<open>
  Claim C10. When the startup (\<open>init_db\<close>, then \<open>ensure_super_admin\<close>) has returned, a
  user row exists, and it still does after any later events of the process (requests with
  any session, restarts): \<open>any_users_exist\<close> is true there, and \<open>/setup\<close>, GET or POST with
  any form, answers with the redirect to the login page and writes nothing.
\<close>

theorem setup_disabled_after_startup:
  assumes boot: "ensure_super_admin L pw E (init_db d0) = (None, d1)"
    and d: "d = snd (exec L evs (True, d1))"
  shows "any_users_exist d1 \<and> any_users_exist d \<and>
         setup_route L E' m f d = (Redirect EP_login, d) \<and>
         handle L E' sess (ReqSetup m f) d = (Redirect EP_login, sess, d)"
proof -
  have u1: "users d1 \<noteq> []"
    using ensure_super_admin_success_users [of L pw E "init_db d0"] boot by simp
  then have u: "users d \<noteq> []"
    unfolding d using exec_users_nonempty [of "(True, d1)" L evs] by simp
  have s: "setup_route L E' m f d = (Redirect EP_login, d)"
    using u by (simp add: setup_route_def any_users_exist_def)
  show ?thesis using u1 u s by (simp add: any_users_exist_def keep_def)
qed

theorem setup_disabled_after_startup_witness:
  "ensure_super_admin lib0 (Some (py ''pw'')) env0 (init_db empty_db) = (None, boot_db) \<and>
   any_users_exist boot_db \<and>
   any_users_exist (snd (exec lib0 (tl reach_events) (True, boot_db))) \<and>
   setup_route lib0 env1 POST
     (form_of [(''company_name'', ''Acme''), (''username'', ''alice''), (''password'', ''pw'')])
     (snd (exec lib0 (tl reach_events) (True, boot_db))) =
     (Redirect EP_login, snd (exec lib0 (tl reach_events) (True, boot_db)))"
  using setup_disabled_after_startup [OF boot_eval refl, where evs = "tl reach_events"
      and E' = env1 and m = POST
      and f = "form_of [(''company_name'', ''Acme''), (''username'', ''alice''), (''password'', ''pw'')]"]
    boot_eval
  by simp

section \<open>The super-admin bootstrap\<close>

text \<open>
  Claim C8. Let the database be one the program reaches from an initial database, and run
  the startup on it. If a super-admin exists, the startup returns and the users are as
  they were. If none exists and the password is absent (or empty), it raises
  \<open>RuntimeError\<close>. Otherwise it returns, and afterwards exactly one company is named
  APtech Solutions and exactly one user is a super-admin. It is idempotent: after a startup
  that returned, another startup, with any password or none, returns and changes nothing.
\<close>

theorem ensure_super_admin_bootstrap:
  assumes init: "initial d0"
    and d: "d = snd (exec L evs (False, d0))"
    and r: "r = ensure_super_admin L pw E (init_db d)"
  shows "(has_super_admin d \<longrightarrow> fst r = None \<and> users (snd r) = users d) \<and>
         (\<not> has_super_admin d \<and> (pw = None \<or> pw = Some []) \<longrightarrow> fst r = Some RuntimeError) \<and>
         (\<not> has_super_admin d \<and> pw \<noteq> None \<and> pw \<noteq> Some [] \<longrightarrow>
            fst r = None \<and>
            length (filter is_owner_company (companies (snd r))) = 1 \<and>
            length (filter is_super_admin (users (snd r))) = 1) \<and>
         (fst r = None \<longrightarrow> ensure_super_admin L pw' E' (init_db (snd r)) = (None, snd r))"
proof -
  have inv: "bootstrap_inv (exec L evs (False, d0))"
    using exec_bootstrap_inv [OF initial_bootstrap_inv [OF init]] .
  have a: "has_super_admin d \<longrightarrow> fst r = None \<and> users (snd r) = users d"
    using ensure_super_admin_existing [of d L pw E] by (simp add: r init_db_def)
  have b: "\<not> has_super_admin d \<and> (pw = None \<or> pw = Some []) \<longrightarrow> fst r = Some RuntimeError"
    using ensure_super_admin_no_password [of d pw L E] by (auto simp: r init_db_def)
  have c: "fst r = None \<and> length (filter is_owner_company (companies (snd r))) = 1 \<and>
      length (filter is_super_admin (users (snd r))) = 1"
    if no: "\<not> has_super_admin d" and pw: "pw \<noteq> None" "pw \<noteq> Some []"
  proof -
    obtain p where p: "pw = Some p" "p \<noteq> []" using pw by (cases pw) auto
    have "users d = []" "length (filter is_owner_company (companies d)) \<le> 1"
      using inv no by (simp_all add: bootstrap_inv_def d)
    then show ?thesis
      using ensure_super_admin_creates [OF no _ _ p, of L E] by (simp add: r init_db_def)
  qed
  have e: "fst r = None \<longrightarrow> ensure_super_admin L pw' E' (init_db (snd r)) = (None, snd r)"
    using ensure_super_admin_idem [of L pw E d pw' E'] by (simp add: r init_db_def)
  show ?thesis using a b c e by blast
qed

theorem ensure_super_admin_bootstrap_witness:
  "initial empty_db \<and>
   \<not> has_super_admin (snd (exec lib0 [] (False, empty_db))) \<and>
   fst (ensure_super_admin lib0 None env0 (init_db (snd (exec lib0 [] (False, empty_db))))) =
     Some RuntimeError \<and>
   fst (ensure_super_admin lib0 (Some (py ''pw'')) env0
         (init_db (snd (exec lib0 [] (False, empty_db))))) = None \<and>
   length (filter is_owner_company (companies (snd (ensure_super_admin lib0 (Some (py ''pw'')) env0
         (init_db (snd (exec lib0 [] (False, empty_db)))))))) = 1 \<and>
   length (filter is_super_admin (users (snd (ensure_super_admin lib0 (Some (py ''pw'')) env0
         (init_db (snd (exec lib0 [] (False, empty_db)))))))) = 1 \<and>
   has_super_admin (snd (exec lib0 reach_events (False, empty_db))) \<and>
   fst (ensure_super_admin lib0 None env1
         (init_db (snd (exec lib0 reach_events (False, empty_db))))) = None \<and>
   users (snd (ensure_super_admin lib0 None env1
         (init_db (snd (exec lib0 reach_events (False, empty_db)))))) =
     users (snd (exec lib0 reach_events (False, empty_db))) \<and>
   ensure_super_admin lib0 None env1
     (init_db (snd (ensure_super_admin lib0 (Some (py ''pw'')) env0
         (init_db (snd (exec lib0 [] (False, empty_db))))))) =
     (None, snd (ensure_super_admin lib0 (Some (py ''pw'')) env0
         (init_db (snd (exec lib0 [] (False, empty_db))))))"
proof -
  have i: "initial empty_db"
    by (simp add: initial_def empty_db_def)
  have n: "\<not> has_super_admin (snd (exec lib0 [] (False, empty_db)))"
    by (simp add: has_super_admin_def empty_db_def)
  have y: "has_super_admin (snd (exec lib0 reach_events (False, empty_db)))"
    by (simp add: reach_exec has_super_admin_def reach_db_def boot_db_def)
  have p: "Some (py ''pw'') \<noteq> None" "Some (py ''pw'') \<noteq> Some []"
    by simp_all
  show ?thesis
    using ensure_super_admin_bootstrap [OF i refl refl, where L = lib0 and evs = "[]"
        and pw = None and E = env0]
      ensure_super_admin_bootstrap [OF i refl refl, where L = lib0 and evs = "[]"
        and pw = "Some (py ''pw'')" and E = env0 and pw' = None and E' = env1]
      ensure_super_admin_bootstrap [OF i refl refl, where L = lib0 and evs = reach_events
        and pw = None and E = env1]
      i n y p
    by blast
qed

section \<open>Tasks: toggling\<close>

lemma toggle_task_auth:
  "authenticated sess cid \<Longrightarrow>
   find (\<lambda>t. t_id t = tid \<and> t_company_id t = cid) (tasks d) = Some tk \<Longrightarrow>
   toggle_task sess tid d =
     (Redirect EP_dashboard,
      d\<lparr>tasks := map (\<lambda>t. if t_id t = tid \<and> t_company_id t = cid
                           then t\<lparr>t_status := (if t_status tk \<noteq> py ''done'' then py ''done''
                                                else py ''todo'')\<rparr>
                           else t) (tasks d)\<rparr>)"
  by (simp add: toggle_task_def login_required_auth current_company_id_auth Let_def)

text \<open>
  One toggle, in any database: a task of the session's company whose status is not \<open>done\<close>
  (\<open>todo\<close> or anything else) becomes \<open>done\<close>, and a \<open>done\<close> one becomes \<open>todo\<close>.
\<close>

lemma toggle_task_once:
  assumes auth: "authenticated sess cid"
    and row: "find (\<lambda>t. t_id t = tid \<and> t_company_id t = cid) (tasks d) = Some tk"
  shows "fst (toggle_task sess tid d) = Redirect EP_dashboard \<and>
         find (\<lambda>t. t_id t = tid \<and> t_company_id t = cid) (tasks (snd (toggle_task sess tid d))) =
           Some (tk\<lparr>t_status := (if t_status tk \<noteq> py ''done'' then py ''done'' else py ''todo'')\<rparr>)"
  unfolding toggle_task_auth [OF auth row]
  using find_map_upd [of "\<lambda>t. t_id t = tid \<and> t_company_id t = cid" "tasks d" tk
      "\<lambda>t. t\<lparr>t_status := (if t_status tk \<noteq> py ''done'' then py ''done'' else py ''todo'')\<rparr>"] row
  by simp

lemma distinct_map_eq:
  "distinct (map f xs) \<Longrightarrow> x \<in> set xs \<Longrightarrow> y \<in> set xs \<Longrightarrow> f x = f y \<Longrightarrow> x = y"
  by (meson distinct_map inj_onD)

text \<open>
  Claim C9. In a database the program reaches from an initial one, for a logged-in session
  and a task of its company: one toggle redirects to the dashboard and maps a status other
  than \<open>done\<close> to \<open>done\<close> and \<open>done\<close> to \<open>todo\<close>; a second toggle redirects as well and
  gives back the database as it was before the first, so the task has its original status.
\<close>

theorem toggle_task_twice:
  assumes init: "initial d0"
    and d: "d = snd (exec L evs (False, d0))"
    and auth: "authenticated sess cid"
    and row: "find (\<lambda>t. t_id t = tid \<and> t_company_id t = cid) (tasks d) = Some tk"
  shows "fst (toggle_task sess tid d) = Redirect EP_dashboard \<and>
         find (\<lambda>t. t_id t = tid \<and> t_company_id t = cid) (tasks (snd (toggle_task sess tid d))) =
           Some (tk\<lparr>t_status := (if t_status tk \<noteq> py ''done'' then py ''done'' else py ''todo'')\<rparr>) \<and>
         toggle_task sess tid (snd (toggle_task sess tid d)) = (Redirect EP_dashboard, d)"
proof -
  let ?P = "\<lambda>t. t_id t = tid \<and> t_company_id t = cid"
  let ?s1 = "if t_status tk \<noteq> py ''done'' then py ''done'' else py ''todo''"
  let ?d1 = "snd (toggle_task sess tid d)"
  have inv: "tasks_inv d"
    unfolding d using exec_tasks_inv [of "(False, d0)" L evs] initial_tasks_inv [OF init] by simp
  note once = toggle_task_once [OF auth row]
  have mem: "tk \<in> set (tasks d)" "?P tk"
    using find_Some_mem [OF row] by simp_all
  have st: "t_status tk = py ''todo'' \<or> t_status tk = py ''done''"
    using inv mem by (simp add: tasks_inv_def)
  have uniq: "t = tk" if "t \<in> set (tasks d)" "?P t" for t
    using distinct_map_eq [of t_id "tasks d" t tk] inv mem that by (simp add: tasks_inv_def)
  have again: "(if t_status (tk\<lparr>t_status := ?s1\<rparr>) \<noteq> py ''done'' then py ''done'' else py ''todo'') = t_status tk"
    using st by auto
  have t1: "tasks ?d1 = map (\<lambda>t. if ?P t then t\<lparr>t_status := ?s1\<rparr> else t) (tasks d)"
    unfolding toggle_task_auth [OF auth row] by simp
  have "toggle_task sess tid ?d1 =
      (Redirect EP_dashboard,
       ?d1\<lparr>tasks := map (\<lambda>t. if ?P t then t\<lparr>t_status := t_status tk\<rparr> else t) (tasks ?d1)\<rparr>)"
    using toggle_task_auth [OF auth conjunct2 [OF once]] again by simp
  moreover have "map (\<lambda>t. if ?P t then t\<lparr>t_status := t_status tk\<rparr> else t) (tasks ?d1) = tasks d"
    unfolding t1 using uniq by (auto simp: map_idI)
  moreover have "?d1\<lparr>tasks := tasks d\<rparr> = d"
    unfolding toggle_task_auth [OF auth row] by simp
  ultimately show ?thesis using once by simp
qed

theorem toggle_task_twice_witness:
  "initial empty_db \<and> reach_db = snd (exec lib0 reach_events (False, empty_db)) \<and>
   authenticated owner_session 1 \<and>
   find (\<lambda>t. t_id t = 1 \<and> t_company_id t = 1) (tasks reach_db) = Some reach_task \<and>
   fst (toggle_task owner_session 1 reach_db) = Redirect EP_dashboard \<and>
   find (\<lambda>t. t_id t = 1 \<and> t_company_id t = 1) (tasks (snd (toggle_task owner_session 1 reach_db))) =
     Some (reach_task\<lparr>t_status := py ''done''\<rparr>) \<and>
   toggle_task owner_session 1 (snd (toggle_task owner_session 1 reach_db)) =
     (Redirect EP_dashboard, reach_db)"
proof -
  have i: "initial empty_db"
    by (simp add: initial_def empty_db_def)
  have e: "reach_db = snd (exec lib0 reach_events (False, empty_db))"
    by (simp add: reach_exec)
  have row: "find (\<lambda>t. t_id t = 1 \<and> t_company_id t = 1) (tasks reach_db) = Some reach_task"
    by (simp add: reach_db_def reach_task_def)
  have s: "t_status reach_task = py ''todo''"
    by (simp add: reach_task_def)
  show ?thesis
    using toggle_task_twice [OF i e authenticated_owner row] i e authenticated_owner row
    by (simp add: s)
qed

section \<open>Invoices: the public token\<close>

lemma concat_map_if_const:
  "concat (map (\<lambda>x. if A then f x else []) xs) = (if A then concat (map f xs) else [])"
  by (induction xs) auto

lemma concat_map_single:
  "distinct (map k xs) \<Longrightarrow> x \<in> set xs \<Longrightarrow>
   concat (map (\<lambda>y. if k y = k x then g y else []) xs) = g x"
proof (induction xs)
  case Nil
  then show ?case by simp
next
  case (Cons a xs)
  show ?case
  proof (cases "a = x")
    case True
    have "concat (map (\<lambda>y. if k y = k x then g y else []) xs) = []"
      using Cons.prems True by (auto simp: image_iff)
    then show ?thesis using True by simp
  next
    case False
    then have "k a \<noteq> k x" using Cons.prems by (auto simp: image_iff)
    then show ?thesis using Cons False by simp
  qed
qed

lemma public_invoice_rows:
  "public_invoice tok d =
     (case concat (map (\<lambda>i. if public_token i = Some tok
                then concat (map (\<lambda>c. if Some (c_id c) = i_company_id i
                       then concat (map (\<lambda>j. if j_id j = i_job_id i
                                      then [(i, c_name c, customer_name j)] else []) (jobs d))
                       else []) (companies d))
                else []) (invoices d)) of
        [] \<Rightarrow> Abort 404
      | (i, cn, cust) # rest \<Rightarrow> Render (PublicInvoicePage i cn cust))"
  unfolding public_invoice_def
  apply (rule arg_cong [where f = "\<lambda>r. case r of [] \<Rightarrow> Abort 404 | (i, cn, cust) # rest \<Rightarrow> Render (PublicInvoicePage i cn cust)"])
  apply (rule arg_cong [where f = concat])
  apply (rule map_cong [OF refl])
  apply (auto simp: concat_map_if_const intro!: arg_cong [where f = concat])
  done

lemma concat_map_Nil: "(\<forall>x \<in> set xs. f x = []) \<Longrightarrow> concat (map f xs) = []"
  by (induction xs) auto

lemma public_invoice_no_match:
  "\<forall>i \<in> set (invoices d). public_token i \<noteq> Some tok \<Longrightarrow> public_invoice tok d = Abort 404"
  unfolding public_invoice_rows by (simp add: concat_map_Nil)

lemma create_invoice_success:
  assumes auth: "authenticated sess cid"
    and ok: "fst (create_invoice L E sess jid f d) = Redirect EP_dashboard"
  shows "\<exists>amt jb.
           float_of L (strip (or_str (form_get f ''amount'') [])) = Some amt \<and> amt \<noteq> NaN \<and>
           find (\<lambda>j. j_id j = jid \<and> j_company_id j = Some cid) (jobs d) = Some jb \<and>
           snd (create_invoice L E sess jid f d) =
             d\<lparr>invoices := invoices d @
               [\<lparr>i_id = next_id (map i_id (invoices d)), i_job_id = jid, amount = amt,
                 i_status = py ''Unpaid'', i_created_at = now E, paid_at = None,
                 due_date = parse_date_yyyy_mm_dd L (form_get_or f ''due_date'' []),
                 public_token = Some (token E), customer_email = None,
                 i_company_id = Some cid\<rparr>]\<rparr>"
  using ok
  by (auto simp: create_invoice_def login_required_auth [OF auth] current_company_id_auth [OF auth]
      Let_def split: option.splits if_splits)

lemma public_invoice_single:
  assumes old: "\<forall>i \<in> set ivs. public_token i \<noteq> Some tok"
    and tok: "public_token iv = Some tok"
    and co: "i_company_id iv = Some (c_id c)" "c \<in> set (companies d)"
      "distinct (map c_id (companies d))"
    and jo: "i_job_id iv = j_id jb" "jb \<in> set (jobs d)" "distinct (map j_id (jobs d))"
    and ivs: "invoices d = ivs @ [iv]"
  shows "public_invoice tok d = Render (PublicInvoicePage iv (c_name c) (customer_name jb))"
proof -
  let ?J = "\<lambda>c. concat (map (\<lambda>j. if j_id j = i_job_id iv
                                   then [(iv, c_name c, customer_name j)] else []) (jobs d))"
  have j: "?J c' = [(iv, c_name c', customer_name jb)]" for c'
    unfolding jo(1)
    using concat_map_single [OF jo(3) jo(2), of "\<lambda>j. [(iv, c_name c', customer_name j)]"] .
  have "concat (map (\<lambda>c'. if c_id c' = c_id c then ?J c' else []) (companies d)) =
      [(iv, c_name c, customer_name jb)]"
    unfolding j
    using concat_map_single [OF co(3) co(2), of "\<lambda>c'. [(iv, c_name c', customer_name jb)]"] .
  then show ?thesis
    unfolding public_invoice_rows ivs
    using old by (simp add: concat_map_Nil tok co(1))
qed

text \<open>
  Claim C6 as stated fails: nothing makes the token unique. When
  \<open>secrets.token_urlsafe(24)\<close> returns the token an invoice already carries, \<open>create_invoice\<close>
  stores it a second time (the column has no \<open>UNIQUE\<close> constraint and the handler does not
  look), and the public page of that token shows the older invoice, not the one created.
\<close>

theorem create_invoice_token_collision_counterexample:
  "authenticated alice 2 \<and> invoices demo_db = [demo_invoice] \<and>
   public_token demo_invoice = Some (token env0) \<and>
   fst (create_invoice lib0 env0 alice 1 (form_of [(''amount'', ''150'')]) demo_db) =
     Redirect EP_dashboard \<and>
   map i_id (invoices (snd (create_invoice lib0 env0 alice 1 (form_of [(''amount'', ''150'')])
     demo_db))) = [1, 2] \<and>
   map public_token (invoices (snd (create_invoice lib0 env0 alice 1
     (form_of [(''amount'', ''150'')]) demo_db))) = [Some (token env0), Some (token env0)] \<and>
   public_invoice (token env0) (snd (create_invoice lib0 env0 alice 1
     (form_of [(''amount'', ''150'')]) demo_db)) =
     Render (PublicInvoicePage demo_invoice (py ''Acme'') (py ''Jane''))"
proof -
  let ?f = "form_of [(''amount'', ''150'')]"
  have f: "form_get ?f ''amount'' = Some (py ''150'')" "form_get_or ?f ''due_date'' [] = []"
    by (simp_all add: form_get_def form_get_or_def form_of_def)
  have s: "strip (py ''150'') = py ''150''"
    by (simp add: py_def strip_def isspace_def)
  have job: "find (\<lambda>j. j_id j = 1 \<and> j_company_id j = Some 2) (jobs demo_db) = Some demo_job"
    by (simp add: demo_db_def demo_job_def)
  have ids: "next_id (map i_id (invoices demo_db)) = 2"
    by (simp add: demo_db_def demo_invoice_def next_id_def)
  have c: "create_invoice lib0 env0 alice 1 ?f demo_db =
      (Redirect EP_dashboard,
       demo_db\<lparr>invoices := [demo_invoice,
         \<lparr>i_id = 2, i_job_id = 1, amount = Finite 150, i_status = py ''Unpaid'',
          i_created_at = now env0, paid_at = None, due_date = None,
          public_token = Some (token env0), customer_email = None, i_company_id = Some 2\<rparr>]\<rparr>)"
    by (simp add: create_invoice_def login_required_auth [OF authenticated_alice]
        current_company_id_auth [OF authenticated_alice] f s or_str_def job ids
        parse_date_yyyy_mm_dd_def)
      (simp add: lib0_def demo_db_def demo_job_def demo_invoice_def next_id_def)
  have t: "public_token demo_invoice = Some (token env0)" "i_id demo_invoice = 1"
    "i_company_id demo_invoice = Some 2" "i_job_id demo_invoice = 1"
    by (simp_all add: demo_invoice_def env0_def)
  have i: "invoices demo_db = [demo_invoice]" "jobs demo_db = [demo_job]"
    "map c_id (companies demo_db) = [1, 2, 3]" "map c_name (companies demo_db) =
       [py ''APtech Solutions'', py ''Acme'', py ''Bolt'']"
    "j_id demo_job = 1" "customer_name demo_job = py ''Jane''"
    by (simp_all add: demo_db_def demo_job_def)
  have p: "public_invoice (token env0) (snd (create_invoice lib0 env0 alice 1 ?f demo_db)) =
      Render (PublicInvoicePage demo_invoice (py ''Acme'') (py ''Jane''))"
    unfolding c public_invoice_rows
    by (simp add: t) (simp add: demo_db_def demo_job_def t)
  have r1: "fst (create_invoice lib0 env0 alice 1 ?f demo_db) = Redirect EP_dashboard"
    unfolding c by simp
  have r2: "map i_id (invoices (snd (create_invoice lib0 env0 alice 1 ?f demo_db))) = [1, 2]"
    unfolding c by (simp add: t)
  have r3: "map public_token (invoices (snd (create_invoice lib0 env0 alice 1 ?f demo_db))) =
      [Some (token env0), Some (token env0)]"
    unfolding c by (simp add: t)
  from authenticated_alice i(1) t(1) r1 r2 r3 p show ?thesis
    by blast
qed

text \<open>
  Claim C6, amended. A successful \<open>create_invoice\<close> of a logged-in session appends one
  invoice that carries the token drawn, the session's company and the job. When the token
  drawn is carried by no invoice stored before (the handler does not check this), the
  company of the session has its row, and the ids of companies and jobs are unique (they
  are primary keys), then the public page of that token shows exactly the new invoice with
  the name of its company and the customer name of its job, and no other invoice carries
  the token. In any database, a token that no invoice carries gets 404: the lookup reads
  \<open>public_token\<close> only, never an id.
\<close>

theorem create_invoice_fresh_token_lookup:
  assumes auth: "authenticated sess cid"
    and ok: "fst (create_invoice L E sess jid f d) = Redirect EP_dashboard"
    and fresh: "\<forall>i \<in> set (invoices d). public_token i \<noteq> Some (token E)"
    and comp: "c \<in> set (companies d)" "c_id c = cid"
    and pk: "distinct (map c_id (companies d))" "distinct (map j_id (jobs d))"
    and d': "d' = snd (create_invoice L E sess jid f d)"
  shows "(\<exists>iv jb. invoices d' = invoices d @ [iv] \<and>
            public_token iv = Some (token E) \<and> i_company_id iv = Some cid \<and>
            i_job_id iv = jid \<and> i_status iv = py ''Unpaid'' \<and>
            i_id iv \<notin> i_id ` set (invoices d) \<and>
            jb \<in> set (jobs d) \<and> j_id jb = jid \<and> j_company_id jb = Some cid \<and>
            filter (\<lambda>i. public_token i = Some (token E)) (invoices d') = [iv] \<and>
            public_invoice (token E) d' =
              Render (PublicInvoicePage iv (c_name c) (customer_name jb))) \<and>
         ((\<forall>i \<in> set (invoices dx). public_token i \<noteq> Some tok) \<longrightarrow>
            public_invoice tok dx = Abort 404)"
proof -
  obtain amt jb where
    jb: "find (\<lambda>j. j_id j = jid \<and> j_company_id j = Some cid) (jobs d) = Some jb"
    and snd: "snd (create_invoice L E sess jid f d) =
             d\<lparr>invoices := invoices d @
               [\<lparr>i_id = next_id (map i_id (invoices d)), i_job_id = jid, amount = amt,
                 i_status = py ''Unpaid'', i_created_at = now E, paid_at = None,
                 due_date = parse_date_yyyy_mm_dd L (form_get_or f ''due_date'' []),
                 public_token = Some (token E), customer_email = None,
                 i_company_id = Some cid\<rparr>]\<rparr>"
    using create_invoice_success [OF auth ok] by blast
  define iv where "iv =
               \<lparr>i_id = next_id (map i_id (invoices d)), i_job_id = jid, amount = amt,
                 i_status = py ''Unpaid'', i_created_at = now E, paid_at = None,
                 due_date = parse_date_yyyy_mm_dd L (form_get_or f ''due_date'' []),
                 public_token = Some (token E), customer_email = None,
                 i_company_id = Some cid\<rparr>"
  have ivs: "invoices d' = invoices d @ [iv]"
    and cs: "companies d' = companies d" and js: "jobs d' = jobs d"
    unfolding d' snd iv_def by simp_all
  have fields: "public_token iv = Some (token E)" "i_company_id iv = Some cid"
    "i_job_id iv = jid" "i_status iv = py ''Unpaid''" "i_id iv = next_id (map i_id (invoices d))"
    by (simp_all add: iv_def)
  have new_id: "i_id iv \<notin> i_id ` set (invoices d)"
    using next_id_fresh [of "map i_id (invoices d)"] by (simp add: fields)
  have jbm: "jb \<in> set (jobs d)" "j_id jb = jid" "j_company_id jb = Some cid"
    using find_Some_mem [OF jb] by simp_all
  have only: "filter (\<lambda>i. public_token i = Some (token E)) (invoices d') = [iv]"
    unfolding ivs using fresh by (simp add: fields filter_empty_conv)
  have page: "public_invoice (token E) d' =
      Render (PublicInvoicePage iv (c_name c) (customer_name jb))"
    using public_invoice_single [of "invoices d" "token E" iv c d' jb]
      fresh fields comp pk jbm ivs cs js
    by simp
  have none: "(\<forall>i \<in> set (invoices dx). public_token i \<noteq> Some tok) \<longrightarrow>
      public_invoice tok dx = Abort 404"
    using public_invoice_no_match [of dx tok] by blast
  show ?thesis
    using ivs fields(1-4) new_id jbm only page none by blast
qed

theorem create_invoice_fresh_token_lookup_witness:
  "authenticated alice 2 \<and>
   fst (create_invoice lib0 env1 alice 1 (form_of [(''amount'', ''150'')]) demo_db) =
     Redirect EP_dashboard \<and>
   invoices demo_db = [demo_invoice] \<and> public_token demo_invoice \<noteq> Some (token env1) \<and>
   map c_id (companies demo_db) = [1, 2, 3] \<and> map j_id (jobs demo_db) = [1] \<and>
   (\<exists>iv. invoices (snd (create_invoice lib0 env1 alice 1 (form_of [(''amount'', ''150'')])
            demo_db)) = [demo_invoice, iv] \<and>
      public_token iv = Some (token env1) \<and> i_id iv \<noteq> i_id demo_invoice \<and>
      public_invoice (token env1)
        (snd (create_invoice lib0 env1 alice 1 (form_of [(''amount'', ''150'')]) demo_db)) =
        Render (PublicInvoicePage iv (py ''Acme'') (py ''Jane''))) \<and>
   public_token demo_invoice \<noteq> Some (py ''1'') \<and> public_invoice (py ''1'') demo_db = Abort 404"
proof -
  let ?f = "form_of [(''amount'', ''150'')]"
  let ?c = "\<lparr>c_id = 2, c_name = py ''Acme'', c_created_at = py ''2024-04-30T09:00:00''\<rparr>"
  have f: "form_get ?f ''amount'' = Some (py ''150'')" "form_get_or ?f ''due_date'' [] = []"
    by (simp_all add: form_get_def form_get_or_def form_of_def)
  have s: "strip (py ''150'') = py ''150''"
    by (simp add: py_def strip_def isspace_def)
  have ok: "fst (create_invoice lib0 env1 alice 1 ?f demo_db) = Redirect EP_dashboard"
    by (simp add: create_invoice_def login_required_auth [OF authenticated_alice]
        current_company_id_auth [OF authenticated_alice] f s or_str_def parse_date_yyyy_mm_dd_def)
      (simp add: lib0_def demo_db_def demo_job_def)
  have i: "invoices demo_db = [demo_invoice]" "public_token demo_invoice \<noteq> Some (token env1)"
    "public_token demo_invoice \<noteq> Some (py ''1'')"
    "map c_id (companies demo_db) = [1, 2, 3]" "map j_id (jobs demo_db) = [1]"
    by (simp_all add: demo_db_def demo_invoice_def demo_job_def env1_def)
  have fresh: "\<forall>i \<in> set (invoices demo_db). public_token i \<noteq> Some (token env1)"
    and nomatch: "\<forall>i \<in> set (invoices demo_db). public_token i \<noteq> Some (py ''1'')"
    using i by simp_all
  have comp: "?c \<in> set (companies demo_db)" "c_id ?c = 2"
    by (simp_all add: demo_db_def)
  have pk: "distinct (map c_id (companies demo_db))" "distinct (map j_id (jobs demo_db))"
    using i by simp_all
  have cust: "\<And>jb. jb \<in> set (jobs demo_db) \<Longrightarrow> customer_name jb = py ''Jane''"
    by (simp add: demo_db_def demo_job_def)
  have nm: "c_name ?c = py ''Acme''"
    by simp
  note inst = create_invoice_fresh_token_lookup [OF authenticated_alice ok fresh comp pk refl,
      where dx = demo_db and tok = "py ''1''"]
  from inst obtain iv jb where
    a: "invoices (snd (create_invoice lib0 env1 alice 1 ?f demo_db)) = invoices demo_db @ [iv]"
    and b: "public_token iv = Some (token env1)"
    and c: "i_id iv \<notin> i_id ` set (invoices demo_db)"
    and e: "jb \<in> set (jobs demo_db)"
    and g: "public_invoice (token env1) (snd (create_invoice lib0 env1 alice 1 ?f demo_db)) =
        Render (PublicInvoicePage iv (c_name ?c) (customer_name jb))"
    by blast
  have a': "invoices (snd (create_invoice lib0 env1 alice 1 ?f demo_db)) = [demo_invoice, iv]"
    using a by (simp add: i(1))
  have c': "i_id iv \<noteq> i_id demo_invoice"
    using c by (auto simp: i(1))
  have g': "public_invoice (token env1) (snd (create_invoice lib0 env1 alice 1 ?f demo_db)) =
        Render (PublicInvoicePage iv (py ''Acme'') (py ''Jane''))"
    using g cust [OF e] by simp
  have ex: "\<exists>iv. invoices (snd (create_invoice lib0 env1 alice 1 ?f demo_db)) = [demo_invoice, iv] \<and>
      public_token iv = Some (token env1) \<and> i_id iv \<noteq> i_id demo_invoice \<and>
      public_invoice (token env1) (snd (create_invoice lib0 env1 alice 1 ?f demo_db)) =
        Render (PublicInvoicePage iv (py ''Acme'') (py ''Jane''))"
    using a' b c' g' by blast
  have n: "public_invoice (py ''1'') demo_db = Abort 404"
    using inst nomatch by blast
  from authenticated_alice ok i ex n show ?thesis
    by blast
qed

section \<open>Signup: the two transactions\<close>

text \<open>
  When nothing else writes between its two transactions, a signup changes nothing or adds
  both rows: the company and an admin user of that company.
\<close>

lemma find_append_last: "\<forall>x \<in> set xs. \<not> P x \<Longrightarrow> P y \<Longrightarrow> find P (xs @ [y]) = Some y"
  by (induction xs) auto

lemma signup_company_cases:
  "(\<exists>r. signup_company L E f d = (Inl r, d)) \<or>
   ((\<forall>u \<in> set (users d). username u \<noteq> strip (or_str (form_get f ''username'') [])) \<and>
    signup_company L E f d =
      (Inr (next_id (map c_id (companies d))),
       d\<lparr>companies := companies d @
          [\<lparr>c_id = next_id (map c_id (companies d)),
            c_name = strip (or_str (form_get f ''company_name'') []),
            c_created_at = now E\<rparr>]\<rparr>))"
  by (auto simp: signup_company_def insert_company_def Let_def)

lemma signup_user_fresh:
  assumes "\<forall>u \<in> set (users d). username u \<noteq> strip (or_str (form_get f ''username'') [])"
  shows "signup_user L E f cid d =
     (Redirect EP_dashboard,
      Some \<lparr>user_id = Some (next_id (map u_id (users d))), company_id = Some cid\<rparr>,
      d\<lparr>users := users d @
        [\<lparr>u_id = next_id (map u_id (users d)), u_company_id = Some cid,
          username = strip (or_str (form_get f ''username'') []),
          password_hash = generate_password_hash L (strip (or_str (form_get f ''password'') [])) (salt E),
          role = py ''admin'', u_created_at = now2 E\<rparr>]\<rparr>)"
  using assms
  by (simp add: signup_user_def insert_user_def Let_def find_append_last)

lemma signup_sequential:
  "snd (snd (signup L E m f d)) = d \<or>
   (\<exists>c u. snd (snd (signup L E m f d)) = d\<lparr>companies := companies d @ [c], users := users d @ [u]\<rparr> \<and>
      u_company_id u = Some (c_id c) \<and> role u = py ''admin'')"
proof (cases "m = POST")
  case False
  then show ?thesis by (simp add: signup_def)
next
  case True
  from signup_company_cases [of L E f d] show ?thesis
  proof
    assume "\<exists>r. signup_company L E f d = (Inl r, d)"
    then show ?thesis using True by (auto simp: signup_def)
  next
    let ?c = "\<lparr>c_id = next_id (map c_id (companies d)),
            c_name = strip (or_str (form_get f ''company_name'') []), c_created_at = now E\<rparr>"
    let ?d1 = "d\<lparr>companies := companies d @ [?c]\<rparr>"
    let ?u = "\<lparr>u_id = next_id (map u_id (users d)), u_company_id = Some (next_id (map c_id (companies d))),
          username = strip (or_str (form_get f ''username'') []),
          password_hash = generate_password_hash L (strip (or_str (form_get f ''password'') [])) (salt E),
          role = py ''admin'', u_created_at = now2 E\<rparr>"
    assume a: "(\<forall>u \<in> set (users d). username u \<noteq> strip (or_str (form_get f ''username'') [])) \<and>
      signup_company L E f d = (Inr (next_id (map c_id (companies d))), ?d1)"
    then have "\<forall>u \<in> set (users ?d1). username u \<noteq> strip (or_str (form_get f ''username'') [])"
      by simp
    from signup_user_fresh [OF this, of L E "next_id (map c_id (companies d))"] a True
    have "snd (snd (signup L E m f d)) = d\<lparr>companies := companies d @ [?c], users := users d @ [?u]\<rparr>"
      by (simp add: signup_def)
    moreover have "u_company_id ?u = Some (c_id ?c)" "role ?u = py ''admin''"
      by simp_all
    ultimately show ?thesis by blast
  qed
qed

lemma signup_lits:
  "strip (py ''Acme'') = py ''Acme''" "strip (py ''Bolt'') = py ''Bolt''"
  "strip (py ''alice'') = py ''alice''" "strip (py ''pw'') = py ''pw''"
  "strip (py ''pw2'') = py ''pw2''" "lower lib0 (py ''alice'') \<noteq> py ''aptech_owner''"
  by (simp_all add: py_def strip_def isspace_def lib0_def)

lemma signup_a_fields:
  "form_get signup_a ''company_name'' = Some (py ''Acme'')"
  "form_get signup_a ''username'' = Some (py ''alice'')"
  "form_get signup_a ''password'' = Some (py ''pw'')"
  by (simp_all add: signup_a_def form_get_def form_of_def)

lemma signup_b_fields:
  "form_get signup_b ''company_name'' = Some (py ''Bolt'')"
  "form_get signup_b ''username'' = Some (py ''alice'')"
  "form_get signup_b ''password'' = Some (py ''pw2'')"
  by (simp_all add: signup_b_def form_get_def form_of_def)

lemma race_step1: "signup_company lib0 env0 signup_a boot_db = (Inr 2, race_db1)"
  by (simp add: signup_company_def signup_a_fields or_str_def signup_lits insert_company_def)
    (simp add: boot_db_def race_db1_def env0_def next_id_def)

lemma race_step2a:
  "signup_company lib0 env1 signup_b race_db1 =
     (Inr 3, race_db1\<lparr>companies := companies race_db1 @
       [\<lparr>c_id = 3, c_name = py ''Bolt'', c_created_at = py ''2024-05-02T10:00:00''\<rparr>]\<rparr>)"
  by (simp add: signup_company_def signup_b_fields or_str_def signup_lits insert_company_def)
    (simp add: boot_db_def race_db1_def env1_def next_id_def)

lemma race_step2b:
  "signup_user lib0 env1 signup_b 3 (race_db1\<lparr>companies := companies race_db1 @
       [\<lparr>c_id = 3, c_name = py ''Bolt'', c_created_at = py ''2024-05-02T10:00:00''\<rparr>]\<rparr>) =
     (Redirect EP_dashboard, Some \<lparr>user_id = Some 2, company_id = Some 3\<rparr>, race_db2)"
  by (simp add: signup_user_def signup_b_fields or_str_def signup_lits insert_user_def)
    (simp add: boot_db_def race_db1_def race_db2_def env1_def next_id_def lib0_def py_append)

lemma race_step2:
  "signup lib0 env1 POST signup_b race_db1 =
     (Redirect EP_dashboard, Some \<lparr>user_id = Some 2, company_id = Some 3\<rparr>, race_db2)"
  by (simp only: signup_def race_step2a race_step2b refl if_True prod.case sum.case)

lemma race_step3:
  "signup_user lib0 env0 signup_a 2 race_db2 = (Raise IntegrityError, None, race_db2)"
  by (simp add: signup_user_def signup_a_fields or_str_def signup_lits insert_user_def)
    (simp add: boot_db_def race_db1_def race_db2_def)

text \<open>
  Claim C3, on the code. The handler commits the company before it inserts the user, so a
  failure of the second insert leaves the company behind. Here two requests ask for the
  username \<open>alice\<close>: the first commits its company Acme (id 2); the second, which passes
  the uniqueness check because no \<open>alice\<close> is stored yet, then runs whole and creates Bolt
  (id 3) with the user \<open>alice\<close>; the first request's insert of its user now violates the
  \<open>UNIQUE\<close> constraint and raises. Acme stays in the database, and no user belongs to it.
\<close>

theorem signup_leaves_company_without_user:
  "signup_company lib0 env0 signup_a boot_db = (Inr 2, race_db1) \<and>
   signup lib0 env1 POST signup_b race_db1 =
     (Redirect EP_dashboard, Some \<lparr>user_id = Some 2, company_id = Some 3\<rparr>, race_db2) \<and>
   signup_user lib0 env0 signup_a 2 race_db2 = (Raise IntegrityError, None, race_db2) \<and>
   map c_id (companies race_db2) = [1, 2, 3] \<and>
   map c_name (companies race_db2) = [py ''APtech Solutions'', py ''Acme'', py ''Bolt''] \<and>
   map u_company_id (users race_db2) = [Some 1, Some 3]"
proof -
  have "map c_id (companies race_db2) = [1, 2, 3]"
    "map c_name (companies race_db2) = [py ''APtech Solutions'', py ''Acme'', py ''Bolt'']"
    "map u_company_id (users race_db2) = [Some 1, Some 3]"
    by (simp_all add: race_db2_def race_db1_def boot_db_def)
  with race_step1 race_step2 race_step3 show ?thesis
    by blast
qed

section \<open>Invoices: the token is never rewritten\<close>

text \<open>
  The ids and tokens of the stored invoices, in order. Every route and every start leaves
  this list as it is or appends one entry to it, so over any history of the process the
  list only grows at its end: no statement changes the token of a stored invoice.
\<close>

lemma handle_keeps_tokens:
  "\<exists>ts. map (\<lambda>i. (i_id i, public_token i)) (invoices (snd (snd (handle L E sess rq d)))) =
        map (\<lambda>i. (i_id i, public_token i)) (invoices d) @ ts"
proof (cases rq)
  case (ReqSetup m f)
  have "map (\<lambda>i. (i_id i, public_token i)) (invoices (snd (setup_route L E m f d))) =
      map (\<lambda>i. (i_id i, public_token i)) (invoices d)"
    by (auto simp: setup_route_def insert_company_def insert_user_def Let_def o_def
        split: sum.splits prod.splits)
  then show ?thesis using ReqSetup by (simp add: keep_def)
next
  case (ReqSignup m f)
  have "invoices (snd (snd (signup L E m f d))) = invoices d"
    using signup_sequential [of L E m f d] by auto
  then show ?thesis using ReqSignup by (simp only: handle_signup_db) simp
next
  case (ReqCreateInvoice jid f)
  have "\<exists>ts. invoices (snd (create_invoice L E sess jid f d)) = invoices d @ ts"
    by (simp add: create_invoice_def guard_defs split: option.splits sum.splits)
  then show ?thesis using ReqCreateInvoice by (auto simp: keep_def)
next
  case (ReqMarkPaid iid)
  have "map (\<lambda>i. (i_id i, public_token i)) (invoices (snd (mark_paid E sess iid d))) =
      map (\<lambda>i. (i_id i, public_token i)) (invoices d)"
    by (auto simp: mark_paid_def guard_defs o_def split: option.splits sum.splits)
  then show ?thesis using ReqMarkPaid by (simp add: keep_def)
qed (simp_all add: keep_def add_lead_frame update_lead_status_frame convert_lead_frame
    update_job_status_frame add_task_frame toggle_task_frame dashboard_frame split: prod.splits)

lemma ensure_super_admin_invoices:
  "invoices (snd (ensure_super_admin L pw E d)) = invoices d"
  by (auto simp: ensure_super_admin_def insert_company_def insert_user_def Let_def
      split: option.splits prod.splits sum.splits)

lemma exec_keeps_tokens:
  "\<exists>ts. map (\<lambda>i. (i_id i, public_token i)) (invoices (snd (exec L evs s))) =
        map (\<lambda>i. (i_id i, public_token i)) (invoices (snd s)) @ ts"
proof (induction evs arbitrary: s)
  case Nil
  then show ?case by simp
next
  case (Cons ev evs)
  obtain sv d where s: "s = (sv, d)" by (cases s)
  show ?case
  proof (cases ev)
    case (Start pw E)
    obtain r d' where e: "ensure_super_admin L pw E (init_db d) = (r, d')"
      by (cases "ensure_super_admin L pw E (init_db d)")
    then have "invoices d' = invoices d"
      using ensure_super_admin_invoices [of L pw E d] by (simp add: init_db_def)
    then show ?thesis
      using Cons.IH [of "(True, d')"] Cons.IH [of "(False, d')"] Start s e
      by (cases r) auto
  next
    case (Request E sess rq)
    show ?thesis
    proof (cases sv)
      case False
      then show ?thesis using Cons.IH [of "(False, d)"] Request s by simp
    next
      case True
      obtain ts1 where "map (\<lambda>i. (i_id i, public_token i)) (invoices (snd (snd (handle L E sess rq d)))) =
          map (\<lambda>i. (i_id i, public_token i)) (invoices d) @ ts1"
        using handle_keeps_tokens by blast
      moreover obtain ts2 where
        "map (\<lambda>i. (i_id i, public_token i)) (invoices (snd (exec L evs (True, snd (snd (handle L E sess rq d)))))) =
         map (\<lambda>i. (i_id i, public_token i)) (invoices (snd (snd (handle L E sess rq d)))) @ ts2"
        using Cons.IH [of "(True, snd (snd (handle L E sess rq d)))"] by auto
      ultimately show ?thesis using True Request s by simp
    qed
  qed
qed

end
